theory Spec2Isabelle
  imports Main
begin

section \<open>Enumerations of the data model\<close>

text \<open>
  \<^verbatim>\<open>app/db/models.py\<close> and the four worker modules declare the same three
  enumerations. The constructors carry a prefix because \<^verbatim>\<open>FAILED\<close> is a member
  of both status enumerations.
\<close>

datatype FileStatus = File_UPLOADED | File_PROCESSING | File_READY | File_FAILED

datatype JobStatus = QUEUED | RUNNING | COMPLETED | FAILED

datatype JobType =
    IMAGE_CONVERT | THUMBNAIL | IMAGE_COMPRESS
  | VIDEO_CONVERT | VIDEO_PREVIEW | VIDEO_THUMBNAIL
  | COMPRESS | METADATA
  | ENCRYPT | DECRYPT | VIRUS_SCAN
  | AI_TAG

text \<open>The string value of each member of \<^verbatim>\<open>JobType\<close>, in declaration order.\<close>

definition JobType_values :: "(string \<times> JobType) list" where
  "JobType_values =
     [(''image_convert'', IMAGE_CONVERT),
      (''thumbnail'', THUMBNAIL),
      (''image_compress'', IMAGE_COMPRESS),
      (''video_convert'', VIDEO_CONVERT),
      (''video_preview'', VIDEO_PREVIEW),
      (''video_thumbnail'', VIDEO_THUMBNAIL),
      (''compress'', COMPRESS),
      (''metadata'', METADATA),
      (''encrypt'', ENCRYPT),
      (''decrypt'', DECRYPT),
      (''virus_scan'', VIRUS_SCAN),
      (''ai_tag'', AI_TAG)]"

fun JobType_value :: "JobType \<Rightarrow> string" where
  "JobType_value IMAGE_CONVERT = ''image_convert''"
| "JobType_value THUMBNAIL = ''thumbnail''"
| "JobType_value IMAGE_COMPRESS = ''image_compress''"
| "JobType_value VIDEO_CONVERT = ''video_convert''"
| "JobType_value VIDEO_PREVIEW = ''video_preview''"
| "JobType_value VIDEO_THUMBNAIL = ''video_thumbnail''"
| "JobType_value COMPRESS = ''compress''"
| "JobType_value METADATA = ''metadata''"
| "JobType_value ENCRYPT = ''encrypt''"
| "JobType_value DECRYPT = ''decrypt''"
| "JobType_value VIRUS_SCAN = ''virus_scan''"
| "JobType_value AI_TAG = ''ai_tag''"

text \<open>
  \<^verbatim>\<open>JobType(action)\<close>: the member whose value is the string, \<open>None\<close> where
  Python raises \<^verbatim>\<open>ValueError\<close>.
\<close>

definition JobType_of :: "string \<Rightarrow> JobType option" where
  "JobType_of action = map_of JobType_values action"

section \<open>The queue router\<close>

text \<open>
  \<^verbatim>\<open>RabbitMQService.get_queue_for_job_type\<close> (services/rabbitmq.py): a dictionary
  lookup with the default \<^verbatim>\<open>'image_queue'\<close>.
\<close>

definition queue_mapping :: "(string \<times> string) list" where
  "queue_mapping =
     [(''image_convert'', ''image_queue''),
      (''thumbnail'', ''image_queue''),
      (''image_compress'', ''image_queue''),
      (''video_convert'', ''video_queue''),
      (''video_preview'', ''video_queue''),
      (''video_thumbnail'', ''video_queue''),
      (''compress'', ''security_queue''),
      (''metadata'', ''image_queue''),
      (''encrypt'', ''security_queue''),
      (''decrypt'', ''security_queue''),
      (''virus_scan'', ''security_queue''),
      (''ai_tag'', ''ai_queue'')]"

definition get_queue_for_job_type :: "string \<Rightarrow> string" where
  "get_queue_for_job_type job_type =
     (case map_of queue_mapping job_type of Some q \<Rightarrow> q | None \<Rightarrow> ''image_queue'')"

section \<open>Rows, database, object store and broker\<close>

text \<open>
  Identifiers are UUIDs in their text form; file contents and every other byte string
  are lists of 8-bit characters.
\<close>

type_synonym uuid = string
type_synonym bytes = string

text \<open>
  A value of the JSON object \<^verbatim>\<open>params\<close>, as \<^verbatim>\<open>json.loads\<close> hands it to a
  worker: a str, given by its UTF-8 encoding; a str that holds a lone surrogate (the
  decoder accepts the escape \<^verbatim>\<open>\ud800\<close>), which has no UTF-8 encoding; or a value
  that is not a str (a number, a boolean, null, an array, an object), given by the text
  that \<^verbatim>\<open>str()\<close> and an f-string make of it.
\<close>

datatype pyvalue = PyStr string | PyStr_surrogate | PyOther string

type_synonym params = "(string \<times> pyvalue) list"

text \<open>
  The mapped classes of \<^verbatim>\<open>app/db/models.py\<close> (the workers declare the columns they
  use again). Each field carries its class name, since \<^verbatim>\<open>id\<close>, \<^verbatim>\<open>file_id\<close> and
  \<^verbatim>\<open>status\<close> are columns of several tables. Timestamps are readings of the clock.
\<close>

record File =
  File_id :: uuid
  File_owner_id :: uuid
  File_original_name :: string
  File_storage_bucket :: string
  File_storage_key :: string
  File_size_bytes :: nat
  File_mime_type :: string
  File_status :: FileStatus
  File_created_at :: nat
  File_is_processed_output :: bool
  File_parent_file_id :: "uuid option"

record Job =
  Job_id :: uuid
  Job_file_id :: uuid
  Job_pipeline_id :: "uuid option"
  Job_type :: JobType
  Job_status :: JobStatus
  Job_created_at :: nat
  Job_updated_at :: nat
  Job_result_file_id :: "uuid option"
  Job_error_message :: "string option"
  Job_params :: params

record Pipeline =
  Pipeline_id :: uuid
  Pipeline_file_id :: uuid
  Pipeline_name :: string
  Pipeline_steps :: "string list"
  Pipeline_created_at :: nat

record FileMetadata =
  FileMetadata_id :: uuid
  FileMetadata_file_id :: uuid
  FileMetadata_ai_tags :: "string list option"
  FileMetadata_created_at :: nat
  FileMetadata_updated_at :: nat

record database =
  files :: "File list"
  file_metadata :: "FileMetadata list"
  pipelines :: "Pipeline list"
  jobs :: "Job list"

text \<open>The wire envelope built by \<^verbatim>\<open>upload_file\<close> and read by every worker.\<close>

record envelope =
  env_job_id :: uuid
  env_file_id :: uuid
  env_bucket :: string
  env_key :: string
  env_type :: string
  env_params :: params

text \<open>
  Exceptions as values. \<open>DBError\<close> is an error raised by the database for a
  statement or a flush (its text stands for the driver's message); \<open>HTTPException\<close>
  is FastAPI's; \<open>Error\<close> is any other exception, with the text of \<^verbatim>\<open>str(e)\<close>.
\<close>

datatype exn = DBError string | HTTPException nat string | Error string

fun str_exn :: "exn \<Rightarrow> string" where
  "str_exn (DBError m) = m"
| "str_exn (HTTPException c m) = m"
| "str_exn (Error m) = m"

text \<open>
  The effects whose order matters, in program order: a flush that sends the insert of a
  row (by its id) into the open transaction, the publication of a job's envelope, and a
  commit together with the database state it makes visible.
\<close>

datatype effect = Flush uuid | Publish uuid | Commit database

text \<open>
  The state of the system: the committed database, the object store (bucket and key to
  contents), the messages published to the broker (queue and envelope, oldest first),
  whether the object store and the broker answer, the clock read by
  \<^verbatim>\<open>datetime.utcnow\<close>, the number of random values drawn so far, and the trace of
  effects.
\<close>

record system =
  db :: database
  store :: "string \<times> string \<rightharpoonup> bytes"
  queues :: "(string \<times> envelope) list"
  store_up :: bool
  broker_up :: bool
  clock :: nat
  entropy :: nat
  trace :: "effect list"

text \<open>
  The external collaborators the code calls, as parameters: the random UUIDs, the JSON
  decoder of the form field, the hash and the Fernet primitives of the cryptography
  library, the ClamAV daemon, Pillow, ffmpeg, zipfile and the vision model. A result
  \<open>Inl m\<close> is an exception with message \<open>m\<close>.
\<close>

datatype clamd_reply =
    Clamd_no_ping
  | Clamd_scan_None
  | Clamd_scan_found string
  | Clamd_raises string

record world =
  uuid4 :: "nat \<Rightarrow> uuid"
  json_loads :: "string \<Rightarrow> string + string list"
  sha256_digest :: "bytes \<Rightarrow> bytes"
  Fernet_generate_key :: "nat \<Rightarrow> bytes"
  Fernet_encrypt :: "bytes \<Rightarrow> nat \<Rightarrow> bytes \<Rightarrow> string + bytes"
  Fernet_decrypt :: "bytes \<Rightarrow> bytes \<Rightarrow> string + bytes"
  clamd :: "bytes \<Rightarrow> clamd_reply"
  create_thumbnail :: "pyvalue \<Rightarrow> bytes \<Rightarrow> string + bytes"
  convert_image :: "pyvalue \<Rightarrow> pyvalue option \<Rightarrow> bytes \<Rightarrow> string + bytes"
  compress_image :: "pyvalue option \<Rightarrow> bytes \<Rightarrow> string + bytes"
  create_video_thumbnail :: "pyvalue \<Rightarrow> bytes \<Rightarrow> string + bytes"
  create_video_preview :: "pyvalue option \<Rightarrow> bytes \<Rightarrow> string + bytes"
  convert_video :: "pyvalue \<Rightarrow> pyvalue \<Rightarrow> bytes \<Rightarrow> string + bytes"
  zip_deflated :: "string \<Rightarrow> bytes \<Rightarrow> string + bytes"
  GEMINI_API_KEY :: string
  gemini_generate :: "bytes \<Rightarrow> string + string"

subsection \<open>Primitives\<close>

text \<open>\<^verbatim>\<open>db.commit()\<close>: the session's view becomes the committed database.\<close>

definition commit :: "database \<Rightarrow> system \<Rightarrow> system" where
  "commit d s = s\<lparr>db := d, trace := trace s @ [Commit d]\<rparr>"

text \<open>One random value is drawn; the next draw uses the next index.\<close>

definition draw :: "system \<Rightarrow> system" where
  "draw s = s\<lparr>entropy := Suc (entropy s)\<rparr>"

text \<open>
  The S3 client: \<^verbatim>\<open>upload_file\<close>, \<^verbatim>\<open>download_file\<close> and \<^verbatim>\<open>delete_object\<close>.
  Every call raises while the store does not answer; a download of an absent key raises;
  deleting an absent key is not an error.
\<close>

definition s3_upload_file :: "system \<Rightarrow> string \<Rightarrow> string \<Rightarrow> bytes \<Rightarrow> exn + system" where
  "s3_upload_file s bucket key content =
     (if store_up s then Inr (s\<lparr>store := (store s)((bucket, key) \<mapsto> content)\<rparr>)
      else Inl (Error ''EndpointConnectionError''))"

definition s3_download_file :: "system \<Rightarrow> string \<Rightarrow> string \<Rightarrow> exn + bytes" where
  "s3_download_file s bucket key =
     (if store_up s then
        (case store s (bucket, key) of
           None \<Rightarrow> Inl (Error ''An error occurred (404) when calling the HeadObject operation: Not Found'')
         | Some content \<Rightarrow> Inr content)
      else Inl (Error ''EndpointConnectionError''))"


text \<open>
  \<^verbatim>\<open>RabbitMQService.publish_job\<close>: reconnects when needed, publishes, and re-raises
  whatever the broker raises.
\<close>

definition publish_job :: "system \<Rightarrow> string \<Rightarrow> envelope \<Rightarrow> exn + system" where
  "publish_job s queue message =
     (if broker_up s
      then Inr (s\<lparr>queues := queues s @ [(queue, message)],
                  trace := trace s @ [Publish (env_job_id message)]\<rparr>)
      else Inl (Error ''AMQPConnectionError''))"

text \<open>Python's truth value of an optional string: \<^verbatim>\<open>None\<close> and \<^verbatim>\<open>''\<close> are false.\<close>

fun truthy :: "string option \<Rightarrow> bool" where
  "truthy None = False"
| "truthy (Some v) = (v \<noteq> [])"

text \<open>\<^verbatim>\<open>params.get(k, default)\<close>.\<close>

definition params_get :: "params \<Rightarrow> string \<Rightarrow> pyvalue \<Rightarrow> pyvalue" where
  "params_get ps k dflt = (case map_of ps k of None \<Rightarrow> dflt | Some v \<Rightarrow> v)"

text \<open>\<^verbatim>\<open>x or default\<close> on an optional string.\<close>

fun py_or :: "string option \<Rightarrow> string \<Rightarrow> string" where
  "py_or None dflt = dflt"
| "py_or (Some v) dflt = (if v = [] then dflt else v)"

section \<open>The submitter: \<^verbatim>\<open>upload_file\<close>\<close>

text \<open>
  \<^verbatim>\<open>actions = []\<close>, replaced by \<^verbatim>\<open>json.loads(pipeline_actions)\<close> when the form
  field is present and not empty.
\<close>

fun parse_actions :: "world \<Rightarrow> string option \<Rightarrow> string + string list" where
  "parse_actions w None = Inr []"
| "parse_actions w (Some a) = (if a = [] then Inr [] else json_loads w a)"

text \<open>
  \<^verbatim>\<open>db.add(row); db.flush()\<close> sends the insert into the open transaction. The view
  of the transaction is a database value of its own, returned updated; the primary key
  is checked by the insert.
\<close>

definition flush_File :: "File \<Rightarrow> database \<times> system \<Rightarrow> exn + database \<times> system" where
  "flush_File row ds =
     (case ds of (d, s) \<Rightarrow>
        if File_id row \<in> set (map File_id (files d)) then Inl (DBError ''IntegrityError'')
        else Inr (d\<lparr>files := files d @ [row]\<rparr>, s\<lparr>trace := trace s @ [Flush (File_id row)]\<rparr>))"

definition flush_Pipeline :: "Pipeline \<Rightarrow> database \<times> system \<Rightarrow> exn + database \<times> system" where
  "flush_Pipeline row ds =
     (case ds of (d, s) \<Rightarrow>
        if Pipeline_id row \<in> set (map Pipeline_id (pipelines d)) then Inl (DBError ''IntegrityError'')
        else Inr (d\<lparr>pipelines := pipelines d @ [row]\<rparr>,
                  s\<lparr>trace := trace s @ [Flush (Pipeline_id row)]\<rparr>))"

definition flush_Job :: "Job \<Rightarrow> database \<times> system \<Rightarrow> exn + database \<times> system" where
  "flush_Job row ds =
     (case ds of (d, s) \<Rightarrow>
        if Job_id row \<in> set (map Job_id (jobs d)) then Inl (DBError ''IntegrityError'')
        else Inr (d\<lparr>jobs := jobs d @ [row]\<rparr>, s\<lparr>trace := trace s @ [Flush (Job_id row)]\<rparr>))"

text \<open>
  The loop \<^verbatim>\<open>for action in actions\<close> of \<^verbatim>\<open>upload_file\<close>: the Job row is added and
  flushed, then its envelope is published, action by action. \<^verbatim>\<open>JobType(action)\<close>
  raises on a string that is no action.
\<close>

fun create_jobs ::
  "world \<Rightarrow> File \<Rightarrow> uuid \<Rightarrow> string list \<Rightarrow> database \<times> system \<Rightarrow> (exn + database) \<times> system" where
  "create_jobs w new_file pipeline_id [] (d, s) = (Inr d, s)"
| "create_jobs w new_file pipeline_id (action # actions) (d, s) =
     (case JobType_of action of
        None \<Rightarrow> (Inl (Error (action @ '' is not a valid JobType'')), s)
      | Some job_type \<Rightarrow>
          let job = \<lparr>Job_id = uuid4 w (entropy s),
                     Job_file_id = File_id new_file,
                     Job_pipeline_id = Some pipeline_id,
                     Job_type = job_type,
                     Job_status = QUEUED,
                     Job_created_at = clock s,
                     Job_updated_at = clock s,
                     Job_result_file_id = None,
                     Job_error_message = None,
                     Job_params = []\<rparr>
          in (case flush_Job job (d, draw s) of
                Inl e \<Rightarrow> (Inl e, draw s)
              | Inr (d1, s1) \<Rightarrow>
                  let queue = get_queue_for_job_type action;
                      message = \<lparr>env_job_id = Job_id job,
                                 env_file_id = File_id new_file,
                                 env_bucket = File_storage_bucket new_file,
                                 env_key = File_storage_key new_file,
                                 env_type = action,
                                 env_params = []\<rparr>
                  in (case publish_job s1 queue message of
                        Inl e \<Rightarrow> (Inl e, s1)
                      | Inr s2 \<Rightarrow> create_jobs w new_file pipeline_id actions (d1, s2))))"

text \<open>
  The block \<^verbatim>\<open>if actions:\<close> of \<^verbatim>\<open>upload_file\<close>: the Pipeline row, the jobs, and
  the status PROCESSING of the new file, all in the open transaction.
\<close>

definition create_pipeline ::
  "world \<Rightarrow> File \<Rightarrow> string list \<Rightarrow> database \<times> system \<Rightarrow> (exn + database) \<times> system" where
  "create_pipeline w new_file actions ds =
     (case ds of (d, s) \<Rightarrow>
        let pipeline = \<lparr>Pipeline_id = uuid4 w (entropy s),
                        Pipeline_file_id = File_id new_file,
                        Pipeline_name = ''Auto Pipeline'',
                        Pipeline_steps = actions,
                        Pipeline_created_at = clock s\<rparr>
        in case flush_Pipeline pipeline (d, draw s) of
             Inl e \<Rightarrow> (Inl e, draw s)
           | Inr (d1, s1) \<Rightarrow>
              (case create_jobs w new_file (Pipeline_id pipeline) actions (d1, s1) of
                 (Inl e, s2) \<Rightarrow> (Inl e, s2)
               | (Inr d2, s2) \<Rightarrow>
                   (Inr (d2\<lparr>files :=
                            map (\<lambda>f. if File_id f = File_id new_file
                                     then f\<lparr>File_status := File_PROCESSING\<rparr> else f)
                                (files d2)\<rparr>), s2)))"

text \<open>
  \<^verbatim>\<open>upload_file\<close> (api/files.py). The arguments are the owner resolved from the
  token, the declared file name and content type, the bytes, and the form field
  \<^verbatim>\<open>pipeline_actions\<close>. An exception leaves the transaction uncommitted: the
  committed database is the one before the call, while the uploaded object and the
  messages already published stay.
\<close>

definition upload_file ::
  "world \<Rightarrow> system \<Rightarrow> uuid \<Rightarrow> string \<Rightarrow> string option \<Rightarrow> bytes \<Rightarrow> string option
     \<Rightarrow> (exn + uuid) \<times> system" where
  "upload_file w s user_id filename content_type content pipeline_actions =
     (let file_id = uuid4 w (entropy s);
          storage_key = user_id @ ''/'' @ file_id @ ''_'' @ filename;
          s0 = draw s
      in case s3_upload_file s0 ''raw'' storage_key content of
           Inl e \<Rightarrow> (Inl e, s0)
         | Inr s1 \<Rightarrow>
             let new_file = \<lparr>File_id = file_id,
                             File_owner_id = user_id,
                             File_original_name = filename,
                             File_storage_bucket = ''raw'',
                             File_storage_key = storage_key,
                             File_size_bytes = length content,
                             File_mime_type = py_or content_type ''application/octet-stream'',
                             File_status = File_UPLOADED,
                             File_created_at = clock s,
                             File_is_processed_output = False,
                             File_parent_file_id = None\<rparr>
             in case flush_File new_file (db s1, s1) of
                  Inl e \<Rightarrow> (Inl e, s1)
                | Inr (d2, s2) \<Rightarrow>
                   (case parse_actions w pipeline_actions of
                      Inl m \<Rightarrow> (Inl (Error m), s2)
                    | Inr actions \<Rightarrow>
                        if actions \<noteq> [] then
                          (case create_pipeline w new_file actions (d2, s2) of
                             (Inl e, s3) \<Rightarrow> (Inl e, s3)
                           | (Inr d3, s3) \<Rightarrow> (Inr file_id, commit d3 s3))
                        else (Inr file_id, commit d2 s2)))"

section \<open>The delete operation: \<^verbatim>\<open>delete_file\<close>\<close>





section \<open>Strings and paths\<close>

text \<open>\<^verbatim>\<open>s.endswith(t)\<close> and \<^verbatim>\<open>s.rfind(c)\<close> (\<open>None\<close> for -1).\<close>

definition endswith :: "string \<Rightarrow> string \<Rightarrow> bool" where
  "endswith s t \<longleftrightarrow> length t \<le> length s \<and> drop (length s - length t) s = t"

definition rfind :: "string \<Rightarrow> char \<Rightarrow> nat option" where
  "rfind s c =
     (if c \<in> set s then Some (length s - Suc (length (takeWhile (\<lambda>x. x \<noteq> c) (rev s))))
      else None)"

text \<open>\<^verbatim>\<open>s.split(c)\<close> with a separator: the pieces between the separators.\<close>

fun split_on :: "char \<Rightarrow> string \<Rightarrow> string list" where
  "split_on c [] = [[]]"
| "split_on c (x # xs) =
     (if x = c then [] # split_on c xs
      else (case split_on c xs of [] \<Rightarrow> [[x]] | p # ps \<Rightarrow> (x # p) # ps))"

text \<open>
  \<^verbatim>\<open>Path(p).name\<close>, \<^verbatim>\<open>.suffix\<close> and \<^verbatim>\<open>.stem\<close> of pathlib for POSIX paths: the
  name is the last component that is neither empty nor a single dot; the suffix starts
  at the last dot of the name, unless that dot is the first or the last character.
\<close>

definition Path_name :: "string \<Rightarrow> string" where
  "Path_name p =
     (case rev (filter (\<lambda>c. c \<noteq> [] \<and> c \<noteq> ''.'') (split_on (CHR ''/'') p)) of
        [] \<Rightarrow> []
      | n # _ \<Rightarrow> n)"

definition Path_suffix :: "string \<Rightarrow> string" where
  "Path_suffix p =
     (let name = Path_name p
      in case rfind name (CHR ''.'') of
           None \<Rightarrow> []
         | Some i \<Rightarrow> if 0 < i \<and> Suc i < length name then drop i name else [])"

definition Path_stem :: "string \<Rightarrow> string" where
  "Path_stem p =
     (let name = Path_name p
      in case rfind name (CHR ''.'') of
           None \<Rightarrow> name
         | Some i \<Rightarrow> if 0 < i \<and> Suc i < length name then take i name else name)"

text \<open>
  Case mapping and white space, on ASCII (the texts they are applied to are keys,
  format names and tags). \<^verbatim>\<open>bytes.strip()\<close> removes the six ASCII white space
  bytes from both ends; \<^verbatim>\<open>str.strip()\<close> also removes the four separator controls.
\<close>

definition lower_char :: "char \<Rightarrow> char" where
  "lower_char c =
     (if (65::nat) \<le> of_char c \<and> of_char c \<le> (90::nat) then char_of (of_char c + (32::nat)) else c)"

definition upper_char :: "char \<Rightarrow> char" where
  "upper_char c =
     (if (97::nat) \<le> of_char c \<and> of_char c \<le> (122::nat) then char_of (of_char c - (32::nat)) else c)"

definition is_space :: "char \<Rightarrow> bool" where
  "is_space c \<longleftrightarrow> of_char c \<in> {9::nat, 10, 11, 12, 13, 32}"

definition strip :: "string \<Rightarrow> string" where
  "strip s = rev (dropWhile is_space (rev (dropWhile is_space s)))"



text \<open>
  What the workers do with a value of \<^verbatim>\<open>params\<close>. \<^verbatim>\<open>v.encode()\<close> gives the
  UTF-8 encoding of a str, raises \<^verbatim>\<open>UnicodeEncodeError\<close> on a lone surrogate and
  \<^verbatim>\<open>AttributeError\<close> on a value that is not a str. \<^verbatim>\<open>v.upper()\<close> and
  \<^verbatim>\<open>v.lower()\<close> raise on a value that is not a str. The text an f-string makes of
  a value becomes part of a file name and of an object key; a lone surrogate cannot be
  written to either, and the exception is raised before anything is stored.
\<close>

fun py_encode :: "pyvalue \<Rightarrow> exn + bytes" where
  "py_encode (PyStr t) = Inr t"
| "py_encode PyStr_surrogate = Inl (Error ''UnicodeEncodeError'')"
| "py_encode (PyOther t) = Inl (Error ''AttributeError'')"

fun py_upper :: "pyvalue \<Rightarrow> exn + pyvalue" where
  "py_upper (PyStr t) = Inr (PyStr (map upper_char t))"
| "py_upper PyStr_surrogate = Inr PyStr_surrogate"
| "py_upper (PyOther t) = Inl (Error ''AttributeError'')"

fun py_lower :: "pyvalue \<Rightarrow> exn + pyvalue" where
  "py_lower (PyStr t) = Inr (PyStr (map lower_char t))"
| "py_lower PyStr_surrogate = Inr PyStr_surrogate"
| "py_lower (PyOther t) = Inl (Error ''AttributeError'')"

fun py_format :: "pyvalue \<Rightarrow> exn + string" where
  "py_format (PyStr t) = Inr t"
| "py_format PyStr_surrogate = Inl (Error ''UnicodeEncodeError'')"
| "py_format (PyOther t) = Inr t"

text \<open>\<^verbatim>\<open>f.readline()\<close> on a file opened at its start: up to and with the first newline.\<close>

fun readline :: "bytes \<Rightarrow> bytes" where
  "readline [] = []"
| "readline (c # cs) = (if c = CHR 0x0A then [c] else c # readline cs)"

section \<open>The workers\<close>

subsection \<open>What the four workers share\<close>

text \<open>
  \<^verbatim>\<open>update_job_status\<close>, the same in the image, video and security workers (the AI
  worker's has no \<^verbatim>\<open>result_file_id\<close> and is this one with \<open>None\<close>). The row is
  looked up by its primary key; without a row nothing happens. The commit checks the
  foreign key of \<^verbatim>\<open>jobs.result_file_id\<close>.
\<close>

definition update_job_status ::
  "system \<Rightarrow> uuid \<Rightarrow> JobStatus \<Rightarrow> string option \<Rightarrow> uuid option \<Rightarrow> exn + system" where
  "update_job_status s job_id status error_message result_file_id =
     (if \<exists>j \<in> set (jobs (db s)). Job_id j = job_id then
        (if truthy result_file_id
            \<and> (case result_file_id of None \<Rightarrow> False
                | Some r \<Rightarrow> r \<notin> set (map File_id (files (db s))))
         then Inl (DBError ''IntegrityError'')
         else Inr (commit
                ((db s)\<lparr>jobs :=
                   map (\<lambda>j. if Job_id j = job_id
                            then j\<lparr>Job_status := status,
                                   Job_updated_at := clock s,
                                   Job_error_message :=
                                     (if truthy error_message then error_message
                                      else Job_error_message j),
                                   Job_result_file_id :=
                                     (if truthy result_file_id then result_file_id
                                      else Job_result_file_id j)\<rparr>
                            else j)
                       (jobs (db s))\<rparr>) s))
      else Inr s)"

text \<open>
  \<^verbatim>\<open>file = db.query(File).filter(File.id == file_id).first()\<close> followed by
  \<^verbatim>\<open>if file: file.status = FileStatus.READY; db.commit()\<close>.
\<close>

definition set_File_READY :: "system \<Rightarrow> uuid \<Rightarrow> system" where
  "set_File_READY s file_id =
     (if \<exists>f \<in> set (files (db s)). File_id f = file_id
      then commit ((db s)\<lparr>files :=
                     map (\<lambda>f. if File_id f = file_id then f\<lparr>File_status := File_READY\<rparr> else f)
                         (files (db s))\<rparr>) s
      else s)"

text \<open>
  \<^verbatim>\<open>file_obj.original_name if file_obj else 'file'\<close> for the row with the given id.
\<close>

definition original_name_of :: "system \<Rightarrow> uuid \<Rightarrow> string" where
  "original_name_of s file_id =
     (case find (\<lambda>f. File_id f = file_id) (files (db s)) of
        None \<Rightarrow> ''file''
      | Some file_obj \<Rightarrow> File_original_name file_obj)"

text \<open>
  The statement \<^verbatim>\<open>INSERT INTO files (...) SELECT ... FROM files WHERE id = '{file_id}'\<close>
  and the commit after it. The row is built from the parent's row, so without a parent
  no row is inserted. The name and the key are pasted into the statement between single
  quotes: a quote inside them ends the literal, and the model takes the statement as
  refused by the database then.
\<close>

definition sql_literal_ok :: "string \<Rightarrow> bool" where
  "sql_literal_ok v \<longleftrightarrow> CHR 0x27 \<notin> set v"

definition insert_output_File ::
  "system \<Rightarrow> uuid \<Rightarrow> string \<Rightarrow> string \<Rightarrow> string \<Rightarrow> nat \<Rightarrow> string \<Rightarrow> uuid \<Rightarrow> exn + system" where
  "insert_output_File s result_file_id name output_bucket output_key output_size mime file_id =
     (if \<not> (sql_literal_ok name \<and> sql_literal_ok output_key) then Inl (DBError ''ProgrammingError'')
      else
        (case find (\<lambda>f. File_id f = file_id) (files (db s)) of
           None \<Rightarrow> Inr (commit (db s) s)
         | Some parent \<Rightarrow>
             if result_file_id \<in> set (map File_id (files (db s)))
             then Inl (DBError ''IntegrityError'')
             else Inr (commit
                    ((db s)\<lparr>files := files (db s) @
                       [\<lparr>File_id = result_file_id,
                         File_owner_id = File_owner_id parent,
                         File_original_name = name,
                         File_storage_bucket = output_bucket,
                         File_storage_key = output_key,
                         File_size_bytes = output_size,
                         File_mime_type = mime,
                         File_status = File_READY,
                         File_created_at = clock s,
                         File_is_processed_output = True,
                         File_parent_file_id = Some file_id\<rparr>]\<rparr>) s)))"

text \<open>
  The block \<^verbatim>\<open>if output_path and output_bucket and output_key:\<close> of the image, video
  and security workers: upload the output, insert its File row, complete the job with
  the row's id, set the subject file READY. The workers differ in the name and the MIME
  type written to the row, which are arguments here.
\<close>

definition store_output ::
  "world \<Rightarrow> system \<Rightarrow> envelope \<Rightarrow> bytes \<times> string \<times> string \<Rightarrow> string \<Rightarrow> string
     \<Rightarrow> (exn + unit) \<times> system" where
  "store_output w s job_data out name mime =
     (case out of (output, output_bucket, output_key) \<Rightarrow>
        (case s3_upload_file s output_bucket output_key output of
           Inl e \<Rightarrow> (Inl e, s)
         | Inr s1 \<Rightarrow>
             let result_file_id = uuid4 w (entropy s1);
                 s2 = draw s1
             in (case insert_output_File s2 result_file_id name output_bucket output_key
                        (length output) mime (env_file_id job_data) of
                   Inl e \<Rightarrow> (Inl e, s2)
                 | Inr s3 \<Rightarrow>
                     (case update_job_status s3 (env_job_id job_data) COMPLETED None
                             (Some result_file_id) of
                        Inl e \<Rightarrow> (Inl e, s3)
                      | Inr s4 \<Rightarrow> (Inr (), set_File_READY s4 (env_file_id job_data))))))"

text \<open>
  The \<^verbatim>\<open>else\<close> branch of the image and video workers: no output, the job is
  completed and the subject file set READY.
\<close>

definition complete_without_output :: "system \<Rightarrow> envelope \<Rightarrow> (exn + unit) \<times> system" where
  "complete_without_output s job_data =
     (case update_job_status s (env_job_id job_data) COMPLETED None None of
        Inl e \<Rightarrow> (Inl e, s)
      | Inr s1 \<Rightarrow> (Inr (), set_File_READY s1 (env_file_id job_data)))"

text \<open>
  The \<^verbatim>\<open>except Exception as e\<close> clause. The image worker calls \<^verbatim>\<open>db.rollback()\<close>
  first, so its session can always record the failure. The other workers do not: after
  an error of the database the session refuses the query of \<^verbatim>\<open>update_job_status\<close>
  until it is rolled back, and that second exception leaves the function.
\<close>

definition except_with_rollback :: "system \<Rightarrow> uuid \<Rightarrow> exn \<Rightarrow> (exn + unit) \<times> system" where
  "except_with_rollback s job_id e =
     (case update_job_status s job_id FAILED (Some (str_exn e)) None of
        Inl e' \<Rightarrow> (Inl e', s)
      | Inr s' \<Rightarrow> (Inr (), s'))"

definition except_without_rollback :: "system \<Rightarrow> uuid \<Rightarrow> exn \<Rightarrow> (exn + unit) \<times> system" where
  "except_without_rollback s job_id e =
     (case e of
        DBError m \<Rightarrow> (Inl (DBError ''PendingRollbackError''), s)
      | _ \<Rightarrow> except_with_rollback s job_id e)"

subsection \<open>The security worker\<close>

definition scan_file_for_virus :: "world \<Rightarrow> bytes \<Rightarrow> bool \<times> string" where
  "scan_file_for_virus w content =
     (case clamd w content of
        Clamd_no_ping \<Rightarrow> (True, ''ClamAV not available'')
      | Clamd_scan_None \<Rightarrow> (True, ''Clean'')
      | Clamd_scan_found result \<Rightarrow> (False, ''Virus detected: '' @ result)
      | Clamd_raises m \<Rightarrow> (True, ''Scan error: '' @ m))"

text \<open>
  \<^verbatim>\<open>encrypt_file\<close>: the password is encoded and hashed first, which raises when it
  has no encoding; the key derived from it is not used; the cipher's key is generated
  afresh and written in front of the token, with a newline between them. The two random
  draws are those of index \<open>r\<close> and \<open>Suc r\<close>.
\<close>

definition encrypt_file :: "world \<Rightarrow> nat \<Rightarrow> bytes \<Rightarrow> pyvalue \<Rightarrow> exn + bytes" where
  "encrypt_file w r data password =
     (case py_encode password of
        Inl e \<Rightarrow> Inl e
      | Inr encoded \<Rightarrow>
          let key = sha256_digest w encoded;
              key_b64 = Fernet_generate_key w r
          in case Fernet_encrypt w key_b64 (Suc r) data of
               Inl m \<Rightarrow> Inl (Error m)
             | Inr encrypted \<Rightarrow> Inr (key_b64 @ [CHR 0x0A] @ encrypted))"

text \<open>
  \<^verbatim>\<open>decrypt_file\<close>: the key is the first line, stripped; the token is the rest. The
  password is not read.
\<close>

definition decrypt_file :: "world \<Rightarrow> bytes \<Rightarrow> pyvalue \<Rightarrow> exn + bytes" where
  "decrypt_file w input password =
     (let key_b64 = strip (readline input);
          encrypted = drop (length (readline input)) input
      in case Fernet_decrypt w key_b64 encrypted of
           Inl m \<Rightarrow> Inl (Error m)
         | Inr decrypted \<Rightarrow> Inr decrypted)"

text \<open>
  The two messages of the virus scan, in UTF-8: a check mark (U+2713) and a warning sign
  (U+26A0) open them.
\<close>

definition clean_message :: string where
  "clean_message = [CHR 0xE2, CHR 0x9C, CHR 0x93] @ '' No virus found - File is clean''"

definition virus_message :: "string \<Rightarrow> string" where
  "virus_message scan_result = [CHR 0xE2, CHR 0x9A, CHR 0xA0] @ '' Virus detected: '' @ scan_result"

text \<open>
  The key of the output of the DECRYPT branch, from the \<^verbatim>\<open>original_name\<close> of the
  subject file: a trailing \<^verbatim>\<open>.enc\<close> is cut off, then \<^verbatim>\<open>_decrypted\<close> is put
  between the stem and the suffix of what is left.
\<close>

definition decrypt_output_key :: "string \<Rightarrow> string" where
  "decrypt_output_key original_name0 =
     (let original_name =
            (if endswith original_name0 ''.enc''
             then take (length original_name0 - 4) original_name0
             else original_name0);
          base_name = Path_stem original_name;
          original_ext = Path_suffix original_name
      in base_name @ ''_decrypted'' @ original_ext)"

text \<open>
  The branches on \<^verbatim>\<open>job_type\<close> of \<^verbatim>\<open>process_security_job\<close>. The result is the
  output file with its bucket and key, if the action has one. The statement
  \<^verbatim>\<open>UPDATE files SET status = 'FAILED' WHERE id = '{file_id}'\<close> changes the row of the
  subject file when there is one.
\<close>

definition security_handler ::
  "world \<Rightarrow> system \<Rightarrow> envelope \<Rightarrow> bytes \<Rightarrow> (exn + (bytes \<times> string \<times> string) option) \<times> system" where
  "security_handler w s job_data input =
     (let job_id = env_job_id job_data;
          file_id = env_file_id job_data;
          job_type = env_type job_data;
          params = env_params job_data
      in
      if job_type = ''virus_scan'' then
        (case scan_file_for_virus w input of
           (is_clean, scan_result) \<Rightarrow>
             if is_clean then
               (case update_job_status s job_id COMPLETED (Some clean_message) None of
                  Inl e \<Rightarrow> (Inl e, s)
                | Inr s1 \<Rightarrow> (Inr None, set_File_READY s1 file_id))
             else
               (let s1 = commit ((db s)\<lparr>files :=
                                   map (\<lambda>f. if File_id f = file_id
                                            then f\<lparr>File_status := File_FAILED\<rparr> else f)
                                       (files (db s))\<rparr>) s
                in case update_job_status s1 job_id FAILED (Some (virus_message scan_result)) None of
                     Inl e \<Rightarrow> (Inl e, s1)
                   | Inr s2 \<Rightarrow> (Inr None, s2)))
      else if job_type = ''encrypt'' then
        (let password = params_get params ''password'' (PyStr ''default_password'');
             original_name = original_name_of s file_id;
             base_name = Path_stem original_name;
             original_ext = Path_suffix original_name
         in case encrypt_file w (entropy s) input password of
              Inl e \<Rightarrow> (Inl e, draw (draw s))
            | Inr output \<Rightarrow>
                (Inr (Some (output, ''encrypted'', base_name @ ''_encrypted'' @ original_ext @ ''.enc'')),
                 draw (draw s)))
      else if job_type = ''decrypt'' then
        (let password = params_get params ''password'' (PyStr ''default_password'');
             original_name = original_name_of s file_id
         in case decrypt_file w input password of
              Inl e \<Rightarrow> (Inl e, s)
            | Inr output \<Rightarrow> (Inr (Some (output, ''processed'', decrypt_output_key original_name)), s))
      else if job_type = ''compress'' then
        (let original_name = original_name_of s file_id
         in case zip_deflated w original_name input of
              Inl m \<Rightarrow> (Inl (Error m), s)
            | Inr output \<Rightarrow> (Inr (Some (output, ''processed'', file_id @ ''_compressed.zip'')), s))
      else (Inr None, s))"

text \<open>The body of the \<^verbatim>\<open>try\<close> of \<^verbatim>\<open>process_security_job\<close>.\<close>

definition security_try :: "world \<Rightarrow> system \<Rightarrow> envelope \<Rightarrow> (exn + unit) \<times> system" where
  "security_try w s job_data =
     (case update_job_status s (env_job_id job_data) RUNNING None None of
        Inl e \<Rightarrow> (Inl e, s)
      | Inr s1 \<Rightarrow>
          (case s3_download_file s1 (env_bucket job_data) (env_key job_data) of
             Inl e \<Rightarrow> (Inl e, s1)
           | Inr input \<Rightarrow>
               (case security_handler w s1 job_data input of
                  (Inl e, s2) \<Rightarrow> (Inl e, s2)
                | (Inr None, s2) \<Rightarrow> (Inr (), s2)
                | (Inr (Some out), s2) \<Rightarrow>
                    store_output w s2 job_data out (snd (snd out)) ''application/octet-stream'')))"

text \<open>
  \<^verbatim>\<open>process_security_job\<close>. \<open>Inr\<close> is a return (the callback acks), \<open>Inl\<close> an
  exception that leaves the function (the callback nacks without requeue).
\<close>

definition process_security_job :: "world \<Rightarrow> system \<Rightarrow> envelope \<Rightarrow> (exn + unit) \<times> system" where
  "process_security_job w s job_data =
     (case security_try w s job_data of
        (Inr u, s') \<Rightarrow> (Inr (), s')
      | (Inl e, s') \<Rightarrow> except_without_rollback s' (env_job_id job_data) e)"

subsection \<open>The image worker\<close>

text \<open>
  The branches on \<^verbatim>\<open>job_type\<close> of \<^verbatim>\<open>process_image_job\<close>. Pillow does the work
  on the pixels (\<open>create_thumbnail\<close> stands for the parsing of the size and the call of
  the helper of that name); the bucket and the key of the output are computed here.
\<close>

definition image_handler ::
  "world \<Rightarrow> envelope \<Rightarrow> bytes \<Rightarrow> string \<Rightarrow> exn + (bytes \<times> string \<times> string) option" where
  "image_handler w job_data input base_name =
     (let job_type = env_type job_data;
          params = env_params job_data
      in
      if job_type = ''thumbnail'' then
        (let size = params_get params ''size'' (PyStr ''256x256'')
         in case create_thumbnail w size input of
              Inl m \<Rightarrow> Inl (Error m)
            | Inr output \<Rightarrow>
                (case py_format size of
                   Inl e \<Rightarrow> Inl e
                 | Inr size_text \<Rightarrow>
                     Inr (Some (output, ''thumbnails'',
                                base_name @ ''_thumb_'' @ size_text @ ''.jpg''))))
      else if job_type = ''image_convert'' then
        (case py_upper (params_get params ''target_format'' (PyStr ''WEBP'')) of
           Inl e \<Rightarrow> Inl e
         | Inr target_format \<Rightarrow>
             (let quality = map_of params ''quality''
              in case py_lower target_format of
                   Inl e \<Rightarrow> Inl e
                 | Inr ext0 \<Rightarrow>
                     (let ext = (if ext0 = PyStr ''jpg'' then PyStr ''jpeg'' else ext0)
                      in case convert_image w target_format quality input of
                           Inl m \<Rightarrow> Inl (Error m)
                         | Inr output \<Rightarrow>
                             (case py_format ext of
                                Inl e \<Rightarrow> Inl e
                              | Inr ext_text \<Rightarrow>
                                  Inr (Some (output, ''processed'',
                                             base_name @ ''_converted.'' @ ext_text))))))
      else if job_type = ''image_compress'' then
        (let quality = map_of params ''quality''
         in case compress_image w quality input of
              Inl m \<Rightarrow> Inl (Error m)
            | Inr output \<Rightarrow> Inr (Some (output, ''processed'', base_name @ ''_compressed.jpg'')))
      else Inr None)"

definition image_try :: "world \<Rightarrow> system \<Rightarrow> envelope \<Rightarrow> (exn + unit) \<times> system" where
  "image_try w s job_data =
     (case update_job_status s (env_job_id job_data) RUNNING None None of
        Inl e \<Rightarrow> (Inl e, s)
      | Inr s1 \<Rightarrow>
          (case s3_download_file s1 (env_bucket job_data) (env_key job_data) of
             Inl e \<Rightarrow> (Inl e, s1)
           | Inr input \<Rightarrow>
               (let original_name = original_name_of s1 (env_file_id job_data);
                    base_name = Path_stem original_name
                in case image_handler w job_data input base_name of
                     Inl e \<Rightarrow> (Inl e, s1)
                   | Inr (Some out) \<Rightarrow> store_output w s1 job_data out (snd (snd out)) ''image/jpeg''
                   | Inr None \<Rightarrow> complete_without_output s1 job_data)))"

definition process_image_job :: "world \<Rightarrow> system \<Rightarrow> envelope \<Rightarrow> (exn + unit) \<times> system" where
  "process_image_job w s job_data =
     (case image_try w s job_data of
        (Inr u, s') \<Rightarrow> (Inr (), s')
      | (Inl e, s') \<Rightarrow> except_with_rollback s' (env_job_id job_data) e)"

subsection \<open>The video worker\<close>




subsection \<open>The AI worker\<close>





section \<open>Observations on the state\<close>



definition file_ready :: "system \<Rightarrow> uuid \<Rightarrow> bool" where
  "file_ready s file_id \<longleftrightarrow>
     (\<forall>f \<in> set (files (db s)). File_id f = file_id \<longrightarrow> File_status f = File_READY)"

text \<open>The state with the status of a job's row replaced.\<close>

definition with_job_status :: "system \<Rightarrow> uuid \<Rightarrow> JobStatus \<Rightarrow> system" where
  "with_job_status s job_id status =
     s\<lparr>db := (db s)\<lparr>jobs := map (\<lambda>j. if Job_id j = job_id then j\<lparr>Job_status := status\<rparr> else j)
                               (jobs (db s))\<rparr>\<rparr>"

section \<open>Properties of traces\<close>

fun is_Commit :: "effect \<Rightarrow> bool" where
  "is_Commit (Commit d) = True"
| "is_Commit e = False"

text \<open>
  Every published job id is the id of a row flushed earlier (the first argument holds
  the ids flushed so far).
\<close>

fun publishes_after_flush :: "uuid list \<Rightarrow> effect list \<Rightarrow> bool" where
  "publishes_after_flush flushed [] = True"
| "publishes_after_flush flushed (Flush i # es) = publishes_after_flush (i # flushed) es"
| "publishes_after_flush flushed (Publish j # es) =
     (j \<in> set flushed \<and> publishes_after_flush flushed es)"
| "publishes_after_flush flushed (Commit d # es) = publishes_after_flush flushed es"

text \<open>
  The order the specification asks for, in its words: an envelope is published only
  after the commit of its Job row. The first argument holds the ids of the Job rows
  committed so far.
\<close>

fun publishes_follow_commit :: "uuid list \<Rightarrow> effect list \<Rightarrow> bool" where
  "publishes_follow_commit committed [] = True"
| "publishes_follow_commit committed (Flush i # es) = publishes_follow_commit committed es"
| "publishes_follow_commit committed (Publish j # es) =
     (j \<in> set committed \<and> publishes_follow_commit committed es)"
| "publishes_follow_commit committed (Commit d # es) =
     publishes_follow_commit (map Job_id (jobs d)) es"

section \<open>The contract of the Fernet primitives\<close>

text \<open>
  What the cryptography library promises and \<^verbatim>\<open>encrypt_file\<close> and
  \<^verbatim>\<open>decrypt_file\<close> rely on: a generated key is URL-safe base64 text, and a token
  made with a generated key decrypts to the data under that key.
\<close>

definition urlsafe_b64_char :: "char \<Rightarrow> bool" where
  "urlsafe_b64_char c \<longleftrightarrow>
     (let n = (of_char c :: nat)
      in (65 \<le> n \<and> n \<le> 90) \<or> (97 \<le> n \<and> n \<le> 122) \<or> (48 \<le> n \<and> n \<le> 57)
         \<or> n = 45 \<or> n = 95 \<or> n = 61)"

definition Fernet_contract :: "world \<Rightarrow> bool" where
  "Fernet_contract w \<longleftrightarrow>
     (\<forall>r. list_all urlsafe_b64_char (Fernet_generate_key w r))
     \<and> (\<forall>r r' data. \<exists>token. Fernet_encrypt w (Fernet_generate_key w r) r' data = Inr token
            \<and> Fernet_decrypt w (Fernet_generate_key w r) token = Inr data)"

section \<open>Concrete inputs\<close>

text \<open>
  A world and states to run the model on. The cipher of this world reverses the data
  and accepts one key only; its UUIDs are told apart by their length; its JSON decoder
  knows the two texts used below.
\<close>

definition example_actions :: string where
  "example_actions = ''['' @ [CHR 0x22] @ ''thumbnail'' @ [CHR 0x22] @ '']''"

definition example_world :: world where
  "example_world =
     \<lparr>uuid4 = (\<lambda>n. ''uuid-'' @ replicate n (CHR ''i'')),
      json_loads = (\<lambda>t. if t = ''[]'' then Inr []
                         else if t = example_actions then Inr [''thumbnail'']
                         else Inl ''JSONDecodeError''),
      sha256_digest = (\<lambda>b. b),
      Fernet_generate_key = (\<lambda>n. ''a2V5''),
      Fernet_encrypt = (\<lambda>k n d. if k = ''a2V5'' then Inr (rev d) else Inl ''ValueError''),
      Fernet_decrypt = (\<lambda>k t. if k = ''a2V5'' then Inr (rev t) else Inl ''InvalidToken''),
      clamd = (\<lambda>b. if b = ''EICAR'' then Clamd_scan_found ''Eicar-Test-Signature''
                    else Clamd_scan_None),
      create_thumbnail = (\<lambda>z b. Inr (''thumb:'' @ b)),
      convert_image = (\<lambda>f q b. Inr (''converted:'' @ b)),
      compress_image = (\<lambda>q b. Inr (''compressed:'' @ b)),
      create_video_thumbnail = (\<lambda>t b. Inr (''frame:'' @ b)),
      create_video_preview = (\<lambda>t b. Inr (''preview:'' @ b)),
      convert_video = (\<lambda>r f b. Inr (''video:'' @ b)),
      zip_deflated = (\<lambda>n b. Inr (''zip:'' @ b)),
      GEMINI_API_KEY = [],
      gemini_generate = (\<lambda>b. Inl ''no key'')\<rparr>"

definition empty_system :: system where
  "empty_system =
     \<lparr>db = \<lparr>files = [], file_metadata = [], pipelines = [], jobs = []\<rparr>,
      store = Map.empty, queues = [], store_up = True, broker_up = True,
      clock = 0, entropy = 0, trace = []\<rparr>"

text \<open>
  Rows, states and envelopes for the examples: a file of user \<^verbatim>\<open>u1\<close> stored in
  \<^verbatim>\<open>raw\<close> under the key \<^verbatim>\<open>upload_file\<close> gives it, a job on a file, a state with
  the given rows and objects, and the envelope \<^verbatim>\<open>upload_file\<close> builds for a job.
\<close>

definition example_File :: "uuid \<Rightarrow> string \<Rightarrow> FileStatus \<Rightarrow> File" where
  "example_File file_id name status =
     \<lparr>File_id = file_id, File_owner_id = ''u1'', File_original_name = name,
      File_storage_bucket = ''raw'', File_storage_key = ''u1/'' @ file_id @ ''_'' @ name,
      File_size_bytes = 5, File_mime_type = ''application/octet-stream'',
      File_status = status, File_created_at = 0, File_is_processed_output = False,
      File_parent_file_id = None\<rparr>"

definition example_derived_File :: "uuid \<Rightarrow> string \<Rightarrow> uuid \<Rightarrow> File" where
  "example_derived_File file_id key parent =
     \<lparr>File_id = file_id, File_owner_id = ''u1'', File_original_name = key,
      File_storage_bucket = ''processed'', File_storage_key = key,
      File_size_bytes = 5, File_mime_type = ''application/octet-stream'',
      File_status = File_READY, File_created_at = 0, File_is_processed_output = True,
      File_parent_file_id = Some parent\<rparr>"

definition example_Job :: "uuid \<Rightarrow> uuid \<Rightarrow> JobType \<Rightarrow> JobStatus \<Rightarrow> uuid option \<Rightarrow> Job" where
  "example_Job job_id file_id job_type status result =
     \<lparr>Job_id = job_id, Job_file_id = file_id, Job_pipeline_id = None, Job_type = job_type,
      Job_status = status, Job_created_at = 0, Job_updated_at = 0,
      Job_result_file_id = result, Job_error_message = None, Job_params = []\<rparr>"

definition example_system ::
  "File list \<Rightarrow> Job list \<Rightarrow> ((string \<times> string) \<times> bytes) list \<Rightarrow> system" where
  "example_system fs js objects =
     \<lparr>db = \<lparr>files = fs, file_metadata = [], pipelines = [], jobs = js\<rparr>,
      store = map_of objects, queues = [], store_up = True, broker_up = True,
      clock = 7, entropy = 0, trace = []\<rparr>"

definition example_envelope :: "uuid \<Rightarrow> File \<Rightarrow> string \<Rightarrow> envelope" where
  "example_envelope job_id f action =
     \<lparr>env_job_id = job_id, env_file_id = File_id f, env_bucket = File_storage_bucket f,
      env_key = File_storage_key f, env_type = action, env_params = []\<rparr>"

text \<open>
  The scenarios: a file waiting for its virus scan; an encrypted file waiting for its
  decryption; a file that a virus scan has set FAILED, with a compression job queued;
  a file whose thumbnail job has completed, with the thumbnail as derived file.
\<close>

definition scan_system :: "bytes \<Rightarrow> system" where
  "scan_system content =
     example_system [example_File ''f1'' ''doc.bin'' File_PROCESSING]
       [example_Job ''j1'' ''f1'' VIRUS_SCAN QUEUED None]
       [((''raw'', ''u1/f1_doc.bin''), content)]"

definition scan_envelope :: envelope where
  "scan_envelope = example_envelope ''j1'' (example_File ''f1'' ''doc.bin'' File_PROCESSING) ''virus_scan''"





definition thumbnail_done_system :: system where
  "thumbnail_done_system =
     example_system
       [example_File ''f1'' ''cat.png'' File_READY,
        (example_derived_File ''d1'' ''cat_thumb_256x256.jpg'' ''f1'')
          \<lparr>File_storage_bucket := ''thumbnails''\<rparr>]
       [example_Job ''j1'' ''f1'' THUMBNAIL COMPLETED (Some ''d1'')]
       [((''raw'', ''u1/f1_cat.png''), ''image''),
        ((''thumbnails'', ''cat_thumb_256x256.jpg''), ''thumb:image'')]"

definition thumbnail_envelope :: envelope where
  "thumbnail_envelope = example_envelope ''j1'' (example_File ''f1'' ''cat.png'' File_READY) ''thumbnail''"


section \<open>Routing\<close>

lemma JobType_of_value: "JobType_of (JobType_value t) = Some t"
  by (cases t) (simp_all add: JobType_of_def JobType_values_def)

lemma JobType_of_None_iff:
  "JobType_of s = None \<longleftrightarrow> s \<notin> set (map fst JobType_values)"
  by (simp add: JobType_of_def map_of_eq_None_iff)

text \<open>
  Claim C4. The router sends THUMBNAIL, IMAGE_CONVERT, IMAGE_COMPRESS and METADATA to
  \<^verbatim>\<open>image_queue\<close>; VIDEO_THUMBNAIL, VIDEO_PREVIEW and VIDEO_CONVERT to
  \<^verbatim>\<open>video_queue\<close>; COMPRESS, ENCRYPT, DECRYPT and VIRUS_SCAN to
  \<^verbatim>\<open>security_queue\<close>; AI_TAG to \<^verbatim>\<open>ai_queue\<close>; and every string that is not the
  value of an action to the default \<^verbatim>\<open>image_queue\<close>.
\<close>

theorem routing_table:
  "get_queue_for_job_type (JobType_value THUMBNAIL) = ''image_queue''
   \<and> get_queue_for_job_type (JobType_value IMAGE_CONVERT) = ''image_queue''
   \<and> get_queue_for_job_type (JobType_value IMAGE_COMPRESS) = ''image_queue''
   \<and> get_queue_for_job_type (JobType_value METADATA) = ''image_queue''
   \<and> get_queue_for_job_type (JobType_value VIDEO_THUMBNAIL) = ''video_queue''
   \<and> get_queue_for_job_type (JobType_value VIDEO_PREVIEW) = ''video_queue''
   \<and> get_queue_for_job_type (JobType_value VIDEO_CONVERT) = ''video_queue''
   \<and> get_queue_for_job_type (JobType_value COMPRESS) = ''security_queue''
   \<and> get_queue_for_job_type (JobType_value ENCRYPT) = ''security_queue''
   \<and> get_queue_for_job_type (JobType_value DECRYPT) = ''security_queue''
   \<and> get_queue_for_job_type (JobType_value VIRUS_SCAN) = ''security_queue''
   \<and> get_queue_for_job_type (JobType_value AI_TAG) = ''ai_queue''
   \<and> (\<forall>s. JobType_of s = None \<longrightarrow> get_queue_for_job_type s = ''image_queue'')"
proof -
  have known: "get_queue_for_job_type (JobType_value t) =
      (if t \<in> {VIDEO_THUMBNAIL, VIDEO_PREVIEW, VIDEO_CONVERT} then ''video_queue''
       else if t \<in> {COMPRESS, ENCRYPT, DECRYPT, VIRUS_SCAN} then ''security_queue''
       else if t = AI_TAG then ''ai_queue'' else ''image_queue'')" for t
    by (cases t) (simp_all add: get_queue_for_job_type_def queue_mapping_def)
  have unknown: "get_queue_for_job_type s = ''image_queue''" if "JobType_of s = None" for s
  proof -
    from that have "s \<notin> set (map fst queue_mapping)"
      by (simp add: JobType_of_None_iff JobType_values_def queue_mapping_def)
    then have "map_of queue_mapping s = None"
      by (simp add: map_of_eq_None_iff)
    then show ?thesis
      by (simp add: get_queue_for_job_type_def)
  qed
  show ?thesis
    using unknown by (simp only: known) simp
qed

theorem routing_table_witness:
  "JobType_of ''shred'' = None \<and> get_queue_for_job_type ''shred'' = ''image_queue''"
proof -
  have h: "JobType_of ''shred'' = None"
    by (simp add: JobType_of_def JobType_values_def)
  with routing_table show ?thesis
    by blast
qed

section \<open>The submitter\<close>

lemma paf_append:
  "publishes_after_flush fl (xs @ ys) \<longleftrightarrow>
     publishes_after_flush fl xs \<and> publishes_after_flush (rev [i. Flush i \<leftarrow> xs] @ fl) ys"
proof (induction xs arbitrary: fl)
  case Nil then show ?case by simp
next
  case (Cons x xs) then show ?case by (cases x) auto
qed

lemma paf_mono: "publishes_after_flush fl es \<Longrightarrow> set fl \<subseteq> set fl' \<Longrightarrow> publishes_after_flush fl' es"
proof (induction es arbitrary: fl fl')
  case Nil then show ?case by simp
next
  case (Cons x xs)
  show ?case
  proof (cases x)
    case (Flush i)
    with Cons.prems have "publishes_after_flush (i # fl) xs" by simp
    moreover have "set (i # fl) \<subseteq> set (i # fl')" using Cons.prems by auto
    ultimately have "publishes_after_flush (i # fl') xs" by (rule Cons.IH)
    with Flush show ?thesis by simp
  next
    case (Publish j) with Cons show ?thesis by auto
  next
    case (Commit d) with Cons show ?thesis by auto
  qed
qed

lemma create_jobs_effects:
  "create_jobs w nf p actions (d, s) = (r, s') \<Longrightarrow>
     \<exists>new. trace s' = trace s @ new \<and> list_all (\<lambda>e. \<not> is_Commit e) new
        \<and> publishes_after_flush fl new \<and> db s' = db s"
proof (induction actions arbitrary: d s fl)
  case Nil
  then show ?case by simp
next
  case (Cons a actions)
  show ?case
  proof (cases "JobType_of a")
    case None
    with Cons.prems show ?thesis by simp
  next
    case (Some t)
    let ?jid = "uuid4 w (entropy s)"
    show ?thesis
    proof (cases "?jid \<in> set (map Job_id (jobs d))")
      case True
      with Cons.prems Some show ?thesis
        by (auto simp: flush_Job_def draw_def Let_def)
    next
      case False
      show ?thesis
      proof (cases "broker_up s")
        case bf: False
        with Cons.prems Some False show ?thesis
          by (auto simp: flush_Job_def draw_def Let_def publish_job_def)
      next
        case True
        with Cons.prems Some False obtain d1 s2 where
          rec: "create_jobs w nf p actions (d1, s2) = (r, s')" and
          tr: "trace s2 = trace s @ [Flush ?jid, Publish ?jid]" and dbs: "db s2 = db s"
          by (auto simp: flush_Job_def draw_def Let_def publish_job_def)
        from Cons.IH [OF rec, of "?jid # fl"] obtain new where
          n: "trace s' = trace s2 @ new" "list_all (\<lambda>e. \<not> is_Commit e) new"
             "publishes_after_flush (?jid # fl) new" "db s' = db s2"
          by blast
        have "trace s' = trace s @ ([Flush ?jid, Publish ?jid] @ new)"
          using n(1) tr by simp
        moreover have "list_all (\<lambda>e. \<not> is_Commit e) ([Flush ?jid, Publish ?jid] @ new)"
          using n(2) by simp
        moreover have "publishes_after_flush fl ([Flush ?jid, Publish ?jid] @ new)"
          using n(3) by simp
        ultimately show ?thesis
          using n(4) dbs by (intro exI [of _ "[Flush ?jid, Publish ?jid] @ new"]) simp
      qed
    qed
  qed
qed

lemma create_jobs_result:
  "create_jobs w nf p actions (d, s) = (Inr d', s') \<Longrightarrow>
     files d' = files d \<and> pipelines d' = pipelines d \<and> file_metadata d' = file_metadata d
     \<and> (\<exists>new msgs. jobs d' = jobs d @ new \<and> queues s' = queues s @ msgs
            \<and> map (\<lambda>m. env_job_id (snd m)) msgs = map Job_id new
            \<and> length new = length actions
            \<and> trace s' = trace s @ concat (map (\<lambda>j. [Flush (Job_id j), Publish (Job_id j)]) new))"
proof (induction actions arbitrary: d s)
  case Nil
  then show ?case by simp
next
  case (Cons a actions)
  from Cons.prems obtain t where t: "JobType_of a = Some t"
    by (cases "JobType_of a") auto
  let ?jid = "uuid4 w (entropy s)"
  from Cons.prems t have fresh: "?jid \<notin> set (map Job_id (jobs d))"
    by (auto simp: flush_Job_def draw_def Let_def split: if_splits)
  from Cons.prems t fresh have up: "broker_up s"
    by (auto simp: flush_Job_def draw_def Let_def publish_job_def split: if_splits)
  from Cons.prems t fresh up obtain j m s2 where
    rec: "create_jobs w nf p actions (d\<lparr>jobs := jobs d @ [j]\<rparr>, s2) = (Inr d', s')" and
    j: "Job_id j = ?jid" and q: "queues s2 = queues s @ [m]" and m: "env_job_id (snd m) = ?jid"
    and tr: "trace s2 = trace s @ [Flush ?jid, Publish ?jid]"
    by (auto simp: flush_Job_def draw_def Let_def publish_job_def)
  have ih0: "files d' = files d \<and> pipelines d' = pipelines d \<and> file_metadata d' = file_metadata d
     \<and> (\<exists>new msgs. jobs d' = jobs d @ j # new \<and> queues s' = queues s2 @ msgs
            \<and> map (\<lambda>m. env_job_id (snd m)) msgs = map Job_id new
            \<and> length new = length actions
            \<and> trace s' = trace s2 @ concat (map (\<lambda>j. [Flush (Job_id j), Publish (Job_id j)]) new))"
    using Cons.IH [OF rec] by simp
  then obtain new msgs where
    ih: "files d' = files d" "pipelines d' = pipelines d" "file_metadata d' = file_metadata d"
        "jobs d' = jobs d @ j # new" "queues s' = queues s2 @ msgs"
        "map (\<lambda>m. env_job_id (snd m)) msgs = map Job_id new" "length new = length actions"
        "trace s' = trace s2 @ concat (map (\<lambda>j. [Flush (Job_id j), Publish (Job_id j)]) new)"
    by blast
  have "jobs d' = jobs d @ (j # new)" using ih(4) by simp
  moreover have "queues s' = queues s @ (m # msgs)" using ih(5) q by simp
  moreover have "map (\<lambda>m. env_job_id (snd m)) (m # msgs) = map Job_id (j # new)"
    using ih(6) j m by simp
  moreover have "length (j # new) = length (a # actions)" using ih(7) by simp
  moreover have "trace s' = trace s @ concat (map (\<lambda>j. [Flush (Job_id j), Publish (Job_id j)]) (j # new))"
    using ih(8) tr j by simp
  ultimately show ?case
    using ih(1-3) by (intro conjI exI [of _ "j # new"] exI [of _ "m # msgs"]) simp_all
qed

lemma publish_in_pairs:
  "Publish i \<in> set (concat (map (\<lambda>j. [Flush (Job_id j), Publish (Job_id j)]) new))
     \<Longrightarrow> i \<in> set (map Job_id new)"
  by (induction new) auto

lemma create_pipeline_effects:
  assumes "create_pipeline w nf actions (d, s) = (r, s')"
  shows "\<exists>new. trace s' = trace s @ new \<and> list_all (\<lambda>e. \<not> is_Commit e) new
        \<and> publishes_after_flush fl new \<and> db s' = db s
        \<and> (\<forall>d'. r = Inr d' \<longrightarrow> (\<forall>j. Publish j \<in> set new \<longrightarrow> j \<in> set (map Job_id (jobs d'))))"
proof -
  let ?pid = "uuid4 w (entropy s)"
  show ?thesis
  proof (cases "?pid \<in> set (map Pipeline_id (pipelines d))")
    case True
    with assms have "trace s' = trace s @ [] \<and> db s' = db s \<and> (\<exists>e. r = Inl e)"
      by (auto simp: create_pipeline_def flush_Pipeline_def Let_def draw_def)
    then show ?thesis by auto
  next
    case False
    with assms obtain d1 s1 where
      cj: "(case create_jobs w nf ?pid actions (d1, s1) of
              (Inl e, s2) \<Rightarrow> (Inl e, s2)
            | (Inr d2, s2) \<Rightarrow>
                (Inr (d2\<lparr>files := map (\<lambda>f. if File_id f = File_id nf
                          then f\<lparr>File_status := File_PROCESSING\<rparr> else f) (files d2)\<rparr>), s2)) = (r, s')"
      and tr1: "trace s1 = trace s @ [Flush ?pid]" and db1: "db s1 = db s"
      by (auto simp: create_pipeline_def flush_Pipeline_def Let_def draw_def)
    obtain r2 s2 where c2: "create_jobs w nf ?pid actions (d1, s1) = (r2, s2)"
      by (cases "create_jobs w nf ?pid actions (d1, s1)")
    from create_jobs_effects [OF c2, of "?pid # fl"] obtain new1 where
      n1: "trace s2 = trace s1 @ new1" "list_all (\<lambda>e. \<not> is_Commit e) new1"
          "publishes_after_flush (?pid # fl) new1" "db s2 = db s1"
      by blast
    from cj c2 have s': "s' = s2" by (cases r2) auto
    have a: "trace s' = trace s @ (Flush ?pid # new1)" using n1(1) tr1 s' by simp
    have b: "list_all (\<lambda>e. \<not> is_Commit e) (Flush ?pid # new1)" using n1(2) by simp
    have c: "publishes_after_flush fl (Flush ?pid # new1)" using n1(3) by simp
    have e: "\<forall>d'. r = Inr d' \<longrightarrow> (\<forall>j. Publish j \<in> set (Flush ?pid # new1) \<longrightarrow> j \<in> set (map Job_id (jobs d')))"
    proof (cases r2)
      case (Inl x)
      with cj c2 show ?thesis by auto
    next
      case (Inr d2)
      from create_jobs_result [OF c2 [unfolded Inr]] obtain newj where
        nj: "jobs d2 = jobs d1 @ newj"
            "trace s2 = trace s1 @ concat (map (\<lambda>j. [Flush (Job_id j), Publish (Job_id j)]) newj)"
        by blast
      have "new1 = concat (map (\<lambda>j. [Flush (Job_id j), Publish (Job_id j)]) newj)"
        using nj(2) n1(1) by simp
      with cj c2 Inr nj(1) publish_in_pairs [of _ newj] show ?thesis by auto
    qed
    show ?thesis
      using a b c e n1(4) db1 s' by (intro exI [of _ "Flush ?pid # new1"]) simp
  qed
qed

text \<open>
  Claim C8. An upload whose \<^verbatim>\<open>pipeline_actions\<close> is absent, empty, or decodes to the
  empty list creates no Pipeline row and no Job row and publishes nothing; when the
  operation commits, the one row it adds is the File row, with status UPLOADED. It does
  commit whenever the object store answers and the generated id is new.
\<close>

theorem upload_without_actions:
  assumes empty: "parse_actions w pipeline_actions = Inr []"
      and run: "upload_file w s user_id filename content_type content pipeline_actions = (r, s')"
  shows "pipelines (db s') = pipelines (db s) \<and> jobs (db s') = jobs (db s)
     \<and> queues s' = queues s
     \<and> (case r of
           Inl e \<Rightarrow> files (db s') = files (db s)
         | Inr file_id \<Rightarrow>
             (\<exists>f. files (db s') = files (db s) @ [f] \<and> File_id f = file_id
                   \<and> File_status f = File_UPLOADED)
             \<and> trace s' = trace s @ [Flush file_id, Commit (db s')])
     \<and> (store_up s \<and> uuid4 w (entropy s) \<notin> set (map File_id (files (db s)))
          \<longrightarrow> r = Inr (uuid4 w (entropy s)))"
  using run
  by (auto simp: upload_file_def empty Let_def s3_upload_file_def draw_def flush_File_def
        commit_def split: if_splits)

theorem upload_without_actions_witness:
  "parse_actions example_world None = Inr []
   \<and> parse_actions example_world (Some ''[]'') = Inr []
   \<and> fst (upload_file example_world empty_system ''u1'' ''cat.png'' None ''abc'' None) = Inr ''uuid-''
   \<and> map File_status
        (files (db (snd (upload_file example_world empty_system ''u1'' ''cat.png'' None ''abc''
                           (Some ''[]''))))) = [File_UPLOADED]
   \<and> jobs (db (snd (upload_file example_world empty_system ''u1'' ''cat.png'' None ''abc'' None))) = []
   \<and> pipelines (db (snd (upload_file example_world empty_system ''u1'' ''cat.png'' None ''abc'' None))) = []"
proof -
  have h1: "parse_actions example_world None = Inr []"
    by simp
  have h2: "parse_actions example_world (Some ''[]'') = Inr []"
    by (simp add: example_world_def)
  have fresh: "store_up empty_system
      \<and> uuid4 example_world (entropy empty_system) \<notin> set (map File_id (files (db empty_system)))"
    by (simp add: empty_system_def)
  have id: "uuid4 example_world (entropy empty_system) = ''uuid-''"
    by (simp add: example_world_def empty_system_def)
  have e: "jobs (db empty_system) = [] \<and> pipelines (db empty_system) = []
      \<and> files (db empty_system) = []"
    by (simp add: empty_system_def)
  note a = upload_without_actions [OF h1 surjective_pairing,
      of empty_system "''u1''" "''cat.png''" None "''abc''"]
  note b = upload_without_actions [OF h2 surjective_pairing,
      of empty_system "''u1''" "''cat.png''" None "''abc''"]
  from a fresh id have r: "fst (upload_file example_world empty_system ''u1'' ''cat.png'' None ''abc'' None)
      = Inr ''uuid-''"
    by simp
  from b fresh id have r': "fst (upload_file example_world empty_system ''u1'' ''cat.png'' None ''abc''
      (Some ''[]'')) = Inr ''uuid-''"
    by simp
  from b r' e have "map File_status
        (files (db (snd (upload_file example_world empty_system ''u1'' ''cat.png'' None ''abc''
                           (Some ''[]''))))) = [File_UPLOADED]"
    by auto
  with h1 h2 r a e show ?thesis
    by simp
qed

text \<open>
  Claim C2, as stated, fails: \<^verbatim>\<open>upload_file\<close> publishes each envelope inside the
  loop that flushes its Job row, and commits once after the loop. For the upload of one
  file with the action \<^verbatim>\<open>thumbnail\<close> the envelope of the job is published before the
  only commit.
\<close>

theorem publish_precedes_commit:
  "trace (snd (upload_file example_world empty_system ''u1'' ''cat.png'' None ''abc''
                 (Some example_actions)))
     = [Flush ''uuid-'', Flush ''uuid-i'', Flush ''uuid-ii'', Publish ''uuid-ii'',
        Commit (db (snd (upload_file example_world empty_system ''u1'' ''cat.png'' None ''abc''
                           (Some example_actions))))]
   \<and> map Job_id (jobs (db (snd (upload_file example_world empty_system ''u1'' ''cat.png'' None
                                  ''abc'' (Some example_actions))))) = [''uuid-ii'']
   \<and> \<not> publishes_follow_commit (map Job_id (jobs (db empty_system)))
          (trace (snd (upload_file example_world empty_system ''u1'' ''cat.png'' None ''abc''
                         (Some example_actions))))"
  by (simp add: upload_file_def create_pipeline_def example_world_def empty_system_def
        example_actions_def Let_def s3_upload_file_def draw_def flush_File_def
        flush_Pipeline_def flush_Job_def publish_job_def commit_def JobType_of_def
        JobType_values_def get_queue_for_job_type_def queue_mapping_def)

text \<open>
  Claim C2, amended. Each envelope is published after its Job row has been flushed into
  the open transaction and before that transaction commits: in the effects of one
  upload every published job id was flushed before, no commit stands anywhere but
  last, a failed upload commits nothing, and a successful one ends with the commit of a
  database that holds the Job row of every envelope it published.
\<close>

theorem upload_publish_order:
  assumes run: "upload_file w s user_id filename content_type content pipeline_actions = (r, s')"
  shows "\<exists>new. trace s' = trace s @ new
     \<and> publishes_after_flush [] new
     \<and> list_all (\<lambda>e. \<not> is_Commit e) (butlast new)
     \<and> (case r of
           Inl e \<Rightarrow> list_all (\<lambda>e. \<not> is_Commit e) new \<and> db s' = db s
         | Inr file_id \<Rightarrow>
             new \<noteq> [] \<and> last new = Commit (db s')
             \<and> (\<forall>j. Publish j \<in> set new \<longrightarrow> j \<in> set (map Job_id (jobs (db s')))))"
proof -
  let ?fid = "uuid4 w (entropy s)"
  let ?s0 = "draw s"
  show ?thesis
  proof (cases "store_up s \<and> ?fid \<notin> set (map File_id (files (db s)))")
    case False
    with run have "trace s' = trace s @ [] \<and> db s' = db s \<and> (\<exists>e. r = Inl e)"
      by (auto simp: upload_file_def Let_def s3_upload_file_def draw_def flush_File_def
            split: if_splits)
    then show ?thesis by auto
  next
    case ok: True
    show ?thesis
    proof (cases "parse_actions w pipeline_actions")
      case (Inl m)
      with run ok have "trace s' = trace s @ [Flush ?fid] \<and> db s' = db s \<and> (\<exists>e. r = Inl e)"
        by (auto simp: upload_file_def Let_def s3_upload_file_def draw_def flush_File_def)
      then show ?thesis by auto
    next
      case (Inr actions)
      show ?thesis
      proof (cases "actions = []")
        case True
        with run ok Inr have "trace s' = trace s @ [Flush ?fid, Commit (db s')]
            \<and> jobs (db s') = jobs (db s) \<and> (\<exists>f. r = Inr f)"
          by (auto simp: upload_file_def Let_def s3_upload_file_def draw_def flush_File_def
                commit_def)
        then show ?thesis by auto
      next
        case False
        define nf where "nf = \<lparr>File_id = ?fid, File_owner_id = user_id,
            File_original_name = filename, File_storage_bucket = ''raw'',
            File_storage_key = user_id @ ''/'' @ ?fid @ ''_'' @ filename,
            File_size_bytes = length content,
            File_mime_type = py_or content_type ''application/octet-stream'',
            File_status = File_UPLOADED, File_created_at = clock s,
            File_is_processed_output = False, File_parent_file_id = None\<rparr>"
        from run ok Inr False obtain d2 s2 where
          cp: "(case create_pipeline w nf actions (d2, s2) of
                  (Inl e, s3) \<Rightarrow> (Inl e, s3)
                | (Inr d3, s3) \<Rightarrow> (Inr ?fid, commit d3 s3)) = (r, s')" and
          tr2: "trace s2 = trace s @ [Flush ?fid]" and db2: "db s2 = db s"
          by (auto simp: upload_file_def Let_def s3_upload_file_def flush_File_def nf_def draw_def)
        obtain r3 s3 where c3: "create_pipeline w nf actions (d2, s2) = (r3, s3)"
          by (cases "create_pipeline w nf actions (d2, s2)")
        from create_pipeline_effects [OF c3] obtain new1 where
          n1: "trace s3 = trace s2 @ new1" "list_all (\<lambda>e. \<not> is_Commit e) new1"
              "publishes_after_flush [?fid] new1" "db s3 = db s2"
              "\<forall>d3. r3 = Inr d3 \<longrightarrow> (\<forall>j. Publish j \<in> set new1 \<longrightarrow> j \<in> set (map Job_id (jobs d3)))"
          by blast
        show ?thesis
        proof (cases r3)
          case (Inl e)
          with cp c3 have "r = Inl e" "s' = s3" by auto
          moreover have "trace s3 = trace s @ (Flush ?fid # new1)"
            using n1(1) tr2 by simp
          moreover have "publishes_after_flush [] (Flush ?fid # new1)"
            using n1(3) by simp
          moreover have a: "list_all (\<lambda>e. \<not> is_Commit e) (Flush ?fid # new1)"
            using n1(2) by simp
          moreover from a have "list_all (\<lambda>e. \<not> is_Commit e) (butlast (Flush ?fid # new1))"
            by (metis in_set_butlastD list_all_iff)
          ultimately show ?thesis
            using n1(4) db2 by (intro exI [of _ "Flush ?fid # new1"]) simp
        next
          case (Inr d3)
          with cp c3 have res: "r = Inr ?fid" "s' = commit d3 s3" by auto
          let ?new = "Flush ?fid # new1 @ [Commit d3]"
          have t: "trace s' = trace s @ ?new" and dbs: "db s' = d3"
            using res n1(1) tr2 by (simp_all add: commit_def)
          have p: "publishes_after_flush [] ?new"
            using n1(3) by (simp add: paf_append)
          have c: "list_all (\<lambda>e. \<not> is_Commit e) (butlast ?new)"
            using n1(2) by (simp add: butlast_append)
          have l: "last ?new = Commit (db s')" using dbs by simp
          have m: "\<forall>j. Publish j \<in> set ?new \<longrightarrow> j \<in> set (map Job_id (jobs (db s')))"
            using n1(5) Inr dbs by auto
          show ?thesis
            using t p c l m res by (intro exI [of _ ?new]) simp
        qed
      qed
    qed
  qed
qed

theorem upload_publish_order_witness:
  "\<exists>new. trace (snd (upload_file example_world empty_system ''u1'' ''cat.png'' None ''abc''
                       (Some example_actions))) = trace empty_system @ new
     \<and> publishes_after_flush [] new
     \<and> list_all (\<lambda>e. \<not> is_Commit e) (butlast new)
     \<and> new \<noteq> []
     \<and> last new = Commit (db (snd (upload_file example_world empty_system ''u1'' ''cat.png'' None
                                     ''abc'' (Some example_actions))))
     \<and> Publish ''uuid-ii'' \<in> set new"
proof -
  have r: "fst (upload_file example_world empty_system ''u1'' ''cat.png'' None ''abc''
                 (Some example_actions)) = Inr ''uuid-''"
    by (simp add: upload_file_def create_pipeline_def example_world_def empty_system_def
        example_actions_def Let_def s3_upload_file_def draw_def flush_File_def
        flush_Pipeline_def flush_Job_def publish_job_def commit_def JobType_of_def
        JobType_values_def get_queue_for_job_type_def queue_mapping_def)
  have t: "Publish ''uuid-ii'' \<in> set (trace (snd (upload_file example_world empty_system ''u1''
                 ''cat.png'' None ''abc'' (Some example_actions))))"
    by (simp add: upload_file_def create_pipeline_def example_world_def empty_system_def
        example_actions_def Let_def s3_upload_file_def draw_def flush_File_def
        flush_Pipeline_def flush_Job_def publish_job_def commit_def JobType_of_def
        JobType_values_def get_queue_for_job_type_def queue_mapping_def)
  have e: "trace empty_system = []"
    by (simp add: empty_system_def)
  from upload_publish_order [OF surjective_pairing, of example_world empty_system "''u1''"
      "''cat.png''" None "''abc''" "Some example_actions"] r t e
  show ?thesis
    by auto
qed

section \<open>Encryption and decryption\<close>

lemma urlsafe_not_space: "urlsafe_b64_char c \<Longrightarrow> \<not> is_space c \<and> c \<noteq> CHR 0x0A"
  by (auto simp: urlsafe_b64_char_def is_space_def Let_def)

lemma readline_key:
  "CHR 0x0A \<notin> set k \<Longrightarrow> readline (k @ CHR 0x0A # t) = k @ [CHR 0x0A]"
  by (induction k) auto

lemma strip_key:
  assumes "\<forall>c \<in> set k. \<not> is_space c"
  shows "strip (k @ [CHR 0x0A]) = k"
proof (cases k)
  case Nil
  then show ?thesis by (simp add: strip_def is_space_def)
next
  case (Cons x xs)
  have nl: "is_space (CHR 0x0A)" by (simp add: is_space_def)
  from Cons assms have front: "dropWhile is_space (k @ [CHR 0x0A]) = k @ [CHR 0x0A]"
    by simp
  have "rev k \<noteq> []" using Cons by simp
  then obtain y ys where r: "rev k = y # ys" by (cases "rev k") auto
  then have "y \<in> set (rev k)" by simp
  then have "y \<in> set k" by simp
  with assms have "\<not> is_space y" by simp
  with r have "dropWhile is_space (rev (k @ [CHR 0x0A])) = rev k"
    using nl by simp
  with front show ?thesis by (simp add: strip_def)
qed

lemma container_roundtrip:
  assumes "Fernet_contract w" and "py_encode p1 = Inr encoded"
  shows "\<exists>token. encrypt_file w r data p1 = Inr (Fernet_generate_key w r @ [CHR 0x0A] @ token)
           \<and> decrypt_file w (Fernet_generate_key w r @ [CHR 0x0A] @ token) p2 = Inr data"
proof -
  let ?k = "Fernet_generate_key w r"
  from assms(1) obtain token where
    enc: "Fernet_encrypt w ?k (Suc r) data = Inr token" and
    dec: "Fernet_decrypt w ?k token = Inr data"
    unfolding Fernet_contract_def by blast
  from assms(1) have key: "\<forall>c \<in> set ?k. urlsafe_b64_char c"
    by (simp add: Fernet_contract_def list_all_iff)
  have nonl: "CHR 0x0A \<notin> set ?k"
    using key urlsafe_not_space by blast
  have nosp: "\<forall>c \<in> set ?k. \<not> is_space c"
    using key urlsafe_not_space by blast
  have e: "encrypt_file w r data p1 = Inr (?k @ [CHR 0x0A] @ token)"
    by (simp add: encrypt_file_def enc assms(2))
  have "decrypt_file w (?k @ [CHR 0x0A] @ token) p2 = Inr data"
    by (simp add: decrypt_file_def readline_key [OF nonl] strip_key [OF nosp] dec)
  with e show ?thesis by (intro exI [of _ token]) simp
qed

lemma encrypt_file_raises:
  "py_encode password = Inl e \<Longrightarrow> encrypt_file w r data password = Inl e"
  by (simp add: encrypt_file_def)

lemma example_contract: "Fernet_contract example_world"
  by (simp add: Fernet_contract_def example_world_def urlsafe_b64_char_def)

text \<open>
  Claim C6, as stated, fails for a credential that has no UTF-8 encoding: the
  \<^verbatim>\<open>password.encode()\<close> of \<^verbatim>\<open>encrypt_file\<close> raises on a str with a lone
  surrogate, no container is written, and there is nothing to decrypt.
\<close>

theorem encrypt_raises_on_surrogate_password:
  "Fernet_contract example_world
   \<and> encrypt_file example_world 0 ''hello'' PyStr_surrogate = Inl (Error ''UnicodeEncodeError'')
   \<and> \<not> (\<exists>container. encrypt_file example_world 0 ''hello'' PyStr_surrogate = Inr container
            \<and> decrypt_file example_world container PyStr_surrogate = Inr ''hello'')"
  using example_contract by (simp add: encrypt_file_def)

text \<open>
  Claim C6, amended. Under the contract of the Fernet primitives, for every byte string
  and every credential that is a str with a UTF-8 encoding, \<^verbatim>\<open>encrypt_file\<close> returns
  a container and \<^verbatim>\<open>decrypt_file\<close> with the same credential returns the original
  bytes from it; for every other credential \<^verbatim>\<open>encrypt_file\<close> raises the exception
  of \<^verbatim>\<open>password.encode()\<close>.
\<close>

theorem encrypt_then_decrypt:
  assumes "Fernet_contract w"
  shows "case py_encode password of
           Inr encoded \<Rightarrow>
             (\<exists>container. encrypt_file w r data password = Inr container
                 \<and> decrypt_file w container password = Inr data)
         | Inl e \<Rightarrow> encrypt_file w r data password = Inl e"
proof (cases "py_encode password")
  case (Inl e)
  then show ?thesis by (simp add: encrypt_file_raises)
next
  case (Inr encoded)
  from container_roundtrip [OF assms Inr, where r = r and data = data and ?p2.0 = password] Inr
  show ?thesis
    by auto
qed

theorem encrypt_then_decrypt_witness:
  "Fernet_contract example_world
   \<and> py_encode (PyStr ''secret'') = Inr ''secret''
   \<and> (\<exists>container. encrypt_file example_world 0 ''hello'' (PyStr ''secret'') = Inr container
          \<and> decrypt_file example_world container (PyStr ''secret'') = Inr ''hello'')"
  using encrypt_then_decrypt [OF example_contract, where password = "PyStr ''secret''"
      and r = 0 and data = "''hello''"]
    example_contract
  by simp

text \<open>
  Claim C9, as stated, fails for a first password that cannot be encoded: with the number
  123 as password \<^verbatim>\<open>encrypt_file\<close> raises, while with \<^verbatim>\<open>'alice'\<close> it returns a
  container, so encrypting with any password does not always succeed.
\<close>

theorem encrypt_raises_on_number_password:
  "encrypt_file example_world 0 ''hello'' (PyOther ''123'') = Inl (Error ''AttributeError'')
   \<and> encrypt_file example_world 0 ''hello'' (PyStr ''alice'')
       = Inr (''a2V5'' @ [CHR 0x0A] @ ''olleh'')
   \<and> \<not> (\<exists>container. encrypt_file example_world 0 ''hello'' (PyOther ''123'') = Inr container
            \<and> decrypt_file example_world container (PyStr ''bob'') = Inr ''hello'')"
  by (simp add: encrypt_file_def example_world_def)

text \<open>
  Claim C9, amended. The value of the password plays no part once it can be encoded: under
  the contract of the Fernet primitives, encrypting with a str password that has a UTF-8
  encoding and decrypting with any password at all succeeds and returns the original
  bytes, because the container opens with the freshly generated key; \<^verbatim>\<open>encrypt_file\<close>
  gives the same result for any two such passwords; \<^verbatim>\<open>decrypt_file\<close> gives the same
  result for any two passwords; and so do the ENCRYPT and DECRYPT branches of the worker
  for the \<^verbatim>\<open>password\<close> parameter of the envelope.
\<close>

theorem decrypt_ignores_password:
  "(Fernet_contract w \<and> py_encode p1 = Inr e1 \<longrightarrow>
      (\<exists>token. encrypt_file w r data p1 = Inr (Fernet_generate_key w r @ [CHR 0x0A] @ token)
          \<and> decrypt_file w (Fernet_generate_key w r @ [CHR 0x0A] @ token) p2 = Inr data))
   \<and> (py_encode p1 = Inr e1 \<and> py_encode p2 = Inr e2 \<longrightarrow>
        encrypt_file w r data p1 = encrypt_file w r data p2)
   \<and> decrypt_file w container p1 = decrypt_file w container p2
   \<and> (env_type job_data = ''decrypt''
        \<or> env_type job_data = ''encrypt'' \<and> py_encode p1 = Inr e1 \<and> py_encode p2 = Inr e2 \<longrightarrow>
        security_handler w s (job_data\<lparr>env_params := [(''password'', p1)]\<rparr>) input
        = security_handler w s (job_data\<lparr>env_params := [(''password'', p2)]\<rparr>) input)"
proof -
  have a: "encrypt_file w r data p1 = encrypt_file w r data p2"
    if "py_encode p1 = Inr e1" "py_encode p2 = Inr e2" for r data
    using that by (simp add: encrypt_file_def)
  have b: "decrypt_file w container p1 = decrypt_file w container p2" for container
    by (simp add: decrypt_file_def)
  have c: "security_handler w s (job_data\<lparr>env_params := [(''password'', p1)]\<rparr>) input
        = security_handler w s (job_data\<lparr>env_params := [(''password'', p2)]\<rparr>) input"
    if "env_type job_data = ''decrypt''"
    using that by (simp add: security_handler_def Let_def params_get_def b)
  have d: "security_handler w s (job_data\<lparr>env_params := [(''password'', p1)]\<rparr>) input
        = security_handler w s (job_data\<lparr>env_params := [(''password'', p2)]\<rparr>) input"
    if "env_type job_data = ''encrypt''" "py_encode p1 = Inr e1" "py_encode p2 = Inr e2"
    using that a [OF that(2,3)] by (simp add: security_handler_def Let_def params_get_def)
  show ?thesis
    using container_roundtrip [where w = w and ?p1.0 = p1 and encoded = e1 and r = r
        and data = data and ?p2.0 = p2] a b c d
    by blast
qed

theorem decrypt_ignores_password_witness:
  "Fernet_contract example_world
   \<and> py_encode (PyStr ''alice'') = Inr ''alice''
   \<and> encrypt_file example_world 0 ''hello'' (PyStr ''alice'')
       = Inr (''a2V5'' @ [CHR 0x0A] @ ''olleh'')
   \<and> decrypt_file example_world (''a2V5'' @ [CHR 0x0A] @ ''olleh'') (PyOther ''123'') = Inr ''hello''"
proof -
  have k: "Fernet_generate_key example_world 0 = ''a2V5''"
    by (simp add: example_world_def)
  have p: "py_encode (PyStr ''alice'') = Inr ''alice''"
    by simp
  have e: "encrypt_file example_world 0 ''hello'' (PyStr ''alice'')
       = Inr (''a2V5'' @ [CHR 0x0A] @ ''olleh'')"
    by (simp add: encrypt_file_def example_world_def)
  from decrypt_ignores_password [where w = example_world and ?p1.0 = "PyStr ''alice''"
      and ?e1.0 = "''alice''" and r = 0 and data = "''hello''" and ?p2.0 = "PyOther ''123''"]
    example_contract p
  obtain token where
    t: "encrypt_file example_world 0 ''hello'' (PyStr ''alice'')
          = Inr (Fernet_generate_key example_world 0 @ [CHR 0x0A] @ token)"
       "decrypt_file example_world (Fernet_generate_key example_world 0 @ [CHR 0x0A] @ token)
          (PyOther ''123'') = Inr ''hello''"
    by blast
  from t(1) e k have "token = ''olleh''" by simp
  with t(2) k e p example_contract show ?thesis by simp
qed

section \<open>The workers: what each step does to the job and the file\<close>


lemma update_job_status_no_result:
  "\<exists>s1. update_job_status s jid st em None = Inr s1
     \<and> files (db s1) = files (db s) \<and> store s1 = store s \<and> store_up s1 = store_up s
     \<and> entropy s1 = entropy s \<and> clock s1 = clock s
     \<and> (\<forall>j \<in> set (jobs (db s1)). Job_id j = jid \<longrightarrow> Job_status j = st)
     \<and> (\<exists>t. trace s1 = trace s @ t)"
  by (auto simp: update_job_status_def commit_def)



lemma update_job_status_fail:
  "update_job_status s jid st em res = Inl e \<Longrightarrow> (\<exists>m. e = DBError m)"
  by (auto simp: update_job_status_def split: if_splits)

lemma set_File_READY_ready:
  "file_ready (set_File_READY s fid) fid \<and> jobs (db (set_File_READY s fid)) = jobs (db s)
   \<and> store (set_File_READY s fid) = store s
   \<and> map File_id (files (db (set_File_READY s fid))) = map File_id (files (db s))"
  by (auto simp: set_File_READY_def file_ready_def commit_def)




















lemma update_job_status_rows:
  "\<exists>s1. update_job_status s jid st em None = Inr s1
     \<and> files (db s1) = files (db s) \<and> store s1 = store s \<and> store_up s1 = store_up s
     \<and> map Job_id (jobs (db s1)) = map Job_id (jobs (db s))
     \<and> (\<forall>j \<in> set (jobs (db s1)). Job_id j = jid \<longrightarrow>
            Job_status j = st \<and> (truthy em \<longrightarrow> Job_error_message j = em))"
proof (cases "\<exists>j \<in> set (jobs (db s)). Job_id j = jid")
  case False
  then have "update_job_status s jid st em None = Inr s"
    by (simp add: update_job_status_def)
  moreover from False have "\<forall>j \<in> set (jobs (db s)). Job_id j = jid \<longrightarrow>
            Job_status j = st \<and> (truthy em \<longrightarrow> Job_error_message j = em)"
    by blast
  ultimately show ?thesis by (intro exI [of _ s]) simp
next
  case True
  define u :: "Job \<Rightarrow> Job" where "u = (\<lambda>j. if Job_id j = jid
              then j\<lparr>Job_status := st, Job_updated_at := clock s,
                     Job_error_message := (if truthy em then em else Job_error_message j),
                     Job_result_file_id := (if truthy None then None else Job_result_file_id j)\<rparr>
              else j)"
  define s1 where "s1 = commit ((db s)\<lparr>jobs := map u (jobs (db s))\<rparr>) s"
  from True have upd: "update_job_status s jid st em None = Inr s1"
    by (simp add: update_job_status_def u_def s1_def)
  have uid: "Job_id (u x) = Job_id x" for x
    by (simp add: u_def)
  have ust: "Job_status (u x) = st \<and> (truthy em \<longrightarrow> Job_error_message (u x) = em)"
    if "Job_id x = jid" for x
    using that by (simp add: u_def)
  have ids: "map Job_id (map u js) = map Job_id js" for js
    by (induction js) (simp_all add: uid)
  have rows: "\<forall>j \<in> set (map u js). Job_id j = jid \<longrightarrow>
            Job_status j = st \<and> (truthy em \<longrightarrow> Job_error_message j = em)" for js
  proof (intro ballI impI)
    fix j assume "j \<in> set (map u js)" and id: "Job_id j = jid"
    then have "j \<in> u ` set js" by (simp only: set_map)
    then obtain x where x: "j = u x" by (rule imageE)
    with id uid have "Job_id x = jid" by simp
    from ust [OF this] x show "Job_status j = st \<and> (truthy em \<longrightarrow> Job_error_message j = em)"
      by simp
  qed
  have s1: "files (db s1) = files (db s)" "store s1 = store s" "store_up s1 = store_up s"
    "jobs (db s1) = map u (jobs (db s))"
    by (simp_all add: s1_def commit_def)
  have r: "\<forall>j \<in> set (jobs (db s1)). Job_id j = jid \<longrightarrow>
            Job_status j = st \<and> (truthy em \<longrightarrow> Job_error_message j = em)"
    unfolding s1(4) by (rule rows)
  have i: "map Job_id (jobs (db s1)) = map Job_id (jobs (db s))"
    unfolding s1(4) by (rule ids)
  show ?thesis
    by (intro exI [of _ s1] conjI upd s1(1-3) i r)
qed

lemma files_status_map:
  fixes fs :: "File list"
  shows "(\<forall>f \<in> set (map (\<lambda>f. if File_id f = fid then f\<lparr>File_status := st\<rparr> else f) fs).
       File_id f = fid \<longrightarrow> File_status f = st)
   \<and> map File_id (map (\<lambda>f. if File_id f = fid then f\<lparr>File_status := st\<rparr> else f) fs)
       = map File_id fs"
proof -
  define g :: "File \<Rightarrow> File" where
    "g = (\<lambda>f. if File_id f = fid then f\<lparr>File_status := st\<rparr> else f)"
  have gid: "File_id (g x) = File_id x" for x by (simp add: g_def)
  have gst: "File_status (g x) = st" if "File_id x = fid" for x using that by (simp add: g_def)
  have ids: "map File_id (map g fs) = map File_id fs"
    by (induction fs) (simp_all add: gid)
  have rows: "\<forall>f \<in> set (map g fs). File_id f = fid \<longrightarrow> File_status f = st"
  proof (intro ballI impI)
    fix f assume "f \<in> set (map g fs)" and id: "File_id f = fid"
    then have "f \<in> g ` set fs" by (simp only: set_map)
    then obtain x where x: "f = g x" by (rule imageE)
    with id gid have "File_id x = fid" by simp
    from gst [OF this] x show "File_status f = st" by simp
  qed
  from rows ids show ?thesis unfolding g_def by (rule conjI)
qed

section \<open>The virus scan\<close>

text \<open>
  Claim C3, amended. For a VIRUS\_SCAN job whose Job and File rows exist and whose input
  object downloads: after a clean scan the Job is COMPLETED with the message
  \<^verbatim>\<open>"[check mark] No virus found - File is clean"\<close> in \<^verbatim>\<open>error_message\<close> and the
  File is READY; after a dirty scan the Job is FAILED with the warning sign,
  \<^verbatim>\<open>" Virus detected: "\<close> and the scanner's verdict in \<^verbatim>\<open>error_message\<close>, and the
  File is FAILED.
\<close>

theorem virus_scan_outcome:
  assumes type: "env_type jd = ''virus_scan''"
      and job: "env_job_id jd \<in> set (map Job_id (jobs (db s)))"
      and frow: "env_file_id jd \<in> set (map File_id (files (db s)))"
      and up: "store_up s"
      and obj: "store s (env_bucket jd, env_key jd) = Some input"
      and scan: "scan_file_for_virus w input = (is_clean, scan_result)"
      and run: "process_security_job w s jd = (r, s')"
  shows "r = Inr ()
     \<and> env_job_id jd \<in> set (map Job_id (jobs (db s')))
     \<and> env_file_id jd \<in> set (map File_id (files (db s')))
     \<and> (\<forall>j \<in> set (jobs (db s')). Job_id j = env_job_id jd \<longrightarrow>
          Job_status j = (if is_clean then COMPLETED else FAILED)
          \<and> Job_error_message j
              = Some (if is_clean then clean_message else virus_message scan_result))
     \<and> (\<forall>f \<in> set (files (db s')). File_id f = env_file_id jd \<longrightarrow>
          File_status f = (if is_clean then File_READY else File_FAILED))"
proof -
  let ?jid = "env_job_id jd" and ?fid = "env_file_id jd"
  from update_job_status_rows [of s ?jid RUNNING None] obtain s1 where
    u1: "update_job_status s ?jid RUNNING None None = Inr s1" and
    s1: "files (db s1) = files (db s)" "store s1 = store s" "store_up s1 = store_up s"
        "map Job_id (jobs (db s1)) = map Job_id (jobs (db s))"
    by blast
  have dl: "s3_download_file s1 (env_bucket jd) (env_key jd) = Inr input"
    using s1 up obj by (simp add: s3_download_file_def)
  have "security_try w s jd =
      (case security_handler w s1 jd input of
         (Inl e, s2) \<Rightarrow> (Inl e, s2)
       | (Inr None, s2) \<Rightarrow> (Inr (), s2)
       | (Inr (Some out), s2) \<Rightarrow>
           store_output w s2 jd out (snd (snd out)) ''application/octet-stream'')"
    by (simp add: security_try_def u1 dl)
  note body = this
  show ?thesis
  proof (cases is_clean)
    case True
    have t: "truthy (Some clean_message)" by (simp add: clean_message_def)
    from update_job_status_rows [of s1 ?jid COMPLETED "Some clean_message"] t obtain s2 where
      u2: "update_job_status s1 ?jid COMPLETED (Some clean_message) None = Inr s2" and
      s2: "files (db s2) = files (db s1)"
          "map Job_id (jobs (db s2)) = map Job_id (jobs (db s1))"
          "\<forall>j \<in> set (jobs (db s2)). Job_id j = ?jid \<longrightarrow>
              Job_status j = COMPLETED \<and> Job_error_message j = Some clean_message"
      by blast
    have h: "security_handler w s1 jd input = (Inr None, set_File_READY s2 ?fid)"
      using type scan True u2 by (simp add: security_handler_def)
    from run have res: "r = Inr ()" "s' = set_File_READY s2 ?fid"
      by (simp_all add: process_security_job_def body h)
    note rd = set_File_READY_ready [of s2 ?fid]
    have a: "?jid \<in> set (map Job_id (jobs (db s')))"
      using res rd s2(2) s1(4) job by simp
    have b: "?fid \<in> set (map File_id (files (db s')))"
      using res rd s2(1) s1(1) frow by simp
    have c: "\<forall>j \<in> set (jobs (db s')). Job_id j = ?jid \<longrightarrow>
              Job_status j = COMPLETED \<and> Job_error_message j = Some clean_message"
      using res rd s2(3) by simp
    have d: "\<forall>f \<in> set (files (db s')). File_id f = ?fid \<longrightarrow> File_status f = File_READY"
      using res rd by (simp add: file_ready_def)
    from res(1) a b c d True show ?thesis by simp
  next
    case False
    define s2 where "s2 = commit ((db s1)\<lparr>files := map (\<lambda>f. if File_id f = ?fid
                    then f\<lparr>File_status := File_FAILED\<rparr> else f) (files (db s1))\<rparr>) s1"
    have f2: "files (db s2) = map (\<lambda>f. if File_id f = ?fid
                    then f\<lparr>File_status := File_FAILED\<rparr> else f) (files (db s1))"
      and j2: "jobs (db s2) = jobs (db s1)"
      by (simp_all add: s2_def commit_def)
    have t: "truthy (Some (virus_message scan_result))" by (simp add: virus_message_def)
    from update_job_status_rows [of s2 ?jid FAILED "Some (virus_message scan_result)"] t
    obtain s3 where
      u3: "update_job_status s2 ?jid FAILED (Some (virus_message scan_result)) None = Inr s3" and
      s3: "files (db s3) = files (db s2)"
          "map Job_id (jobs (db s3)) = map Job_id (jobs (db s2))"
          "\<forall>j \<in> set (jobs (db s3)). Job_id j = ?jid \<longrightarrow>
              Job_status j = FAILED \<and> Job_error_message j = Some (virus_message scan_result)"
      by blast
    have h: "security_handler w s1 jd input = (Inr None, s3)"
      using type scan False u3 by (simp add: security_handler_def Let_def s2_def)
    from run have res: "r = Inr ()" "s' = s3"
      by (simp_all add: process_security_job_def body h)
    note fm = files_status_map [of ?fid File_FAILED "files (db s1)"]
    have a: "?jid \<in> set (map Job_id (jobs (db s')))"
      using res s3(2) j2 s1(4) job by simp
    have b: "?fid \<in> set (map File_id (files (db s')))"
      unfolding res s3(1) f2 using fm s1(1) frow by simp
    have c: "\<forall>j \<in> set (jobs (db s')). Job_id j = ?jid \<longrightarrow>
              Job_status j = FAILED \<and> Job_error_message j = Some (virus_message scan_result)"
      using res s3(3) by simp
    have d: "\<forall>f \<in> set (files (db s')). File_id f = ?fid \<longrightarrow> File_status f = File_FAILED"
      unfolding res s3(1) f2 using fm by (rule conjunct1)
    from res(1) a b c d False show ?thesis by simp
  qed
qed

text \<open>The definitions to unfold when the security worker runs on an example.\<close>

lemmas security_run_defs =
  process_security_job_def security_try_def security_handler_def store_output_def
  insert_output_File_def update_job_status_def set_File_READY_def original_name_of_def
  s3_download_file_def s3_upload_file_def commit_def draw_def except_without_rollback_def
  except_with_rollback_def sql_literal_ok_def Let_def params_get_def scan_file_for_virus_def
  example_world_def example_system_def example_File_def example_Job_def example_envelope_def

theorem virus_scan_outcome_witness:
  "scan_file_for_virus example_world ''EICAR'' = (False, ''Virus detected: Eicar-Test-Signature'')
   \<and> fst (process_security_job example_world (scan_system ''EICAR'') scan_envelope) = Inr ()
   \<and> map Job_status (jobs (db (snd (process_security_job example_world (scan_system ''EICAR'')
                                        scan_envelope)))) = [FAILED]
   \<and> map Job_error_message (jobs (db (snd (process_security_job example_world (scan_system ''EICAR'')
                                        scan_envelope))))
        = [Some (virus_message ''Virus detected: Eicar-Test-Signature'')]
   \<and> map File_status (files (db (snd (process_security_job example_world (scan_system ''EICAR'')
                                        scan_envelope)))) = [File_FAILED]
   \<and> map File_status (files (db (snd (process_security_job example_world (scan_system ''hello'')
                                        scan_envelope)))) = [File_READY]"
proof -
  have h1: "env_type scan_envelope = ''virus_scan''"
    and h2: "env_job_id scan_envelope \<in> set (map Job_id (jobs (db (scan_system ''EICAR''))))"
    and h3: "env_file_id scan_envelope \<in> set (map File_id (files (db (scan_system ''EICAR''))))"
    and h4: "store_up (scan_system ''EICAR'')"
    and h5: "store (scan_system ''EICAR'') (env_bucket scan_envelope, env_key scan_envelope)
               = Some ''EICAR''"
    and h6: "scan_file_for_virus example_world ''EICAR''
               = (False, ''Virus detected: Eicar-Test-Signature'')"
    by (simp_all add: scan_system_def scan_envelope_def example_system_def example_File_def
          example_Job_def example_envelope_def scan_file_for_virus_def example_world_def)
  note a = virus_scan_outcome [OF h1 h2 h3 h4 h5 h6 surjective_pairing]
  have b: "map Job_status (jobs (db (snd (process_security_job example_world (scan_system ''EICAR'')
                                        scan_envelope)))) = [FAILED]
   \<and> map Job_error_message (jobs (db (snd (process_security_job example_world (scan_system ''EICAR'')
                                        scan_envelope))))
        = [Some (virus_message ''Virus detected: Eicar-Test-Signature'')]
   \<and> map File_status (files (db (snd (process_security_job example_world (scan_system ''EICAR'')
                                        scan_envelope)))) = [File_FAILED]
   \<and> map File_status (files (db (snd (process_security_job example_world (scan_system ''hello'')
                                        scan_envelope)))) = [File_READY]"
    by (simp add: security_run_defs scan_system_def scan_envelope_def virus_message_def)
  from a have "fst (process_security_job example_world (scan_system ''EICAR'') scan_envelope) = Inr ()"
    by (rule conjunct1)
  with h6 b show ?thesis by (intro conjI) simp_all
qed

text \<open>
  Claim C3, as stated, fails in the message of a clean scan: the job is COMPLETED and the
  file READY, but \<^verbatim>\<open>error_message\<close> holds the sentence of the code, not
  \<^verbatim>\<open>"clean"\<close>.
\<close>

theorem clean_scan_message_differs:
  "scan_file_for_virus example_world ''hello'' = (True, ''Clean'')
   \<and> map Job_status (jobs (db (snd (process_security_job example_world (scan_system ''hello'')
                                        scan_envelope)))) = [COMPLETED]
   \<and> map Job_error_message (jobs (db (snd (process_security_job example_world (scan_system ''hello'')
                                        scan_envelope)))) = [Some clean_message]
   \<and> clean_message \<noteq> ''clean''"
  by (simp add: security_run_defs scan_system_def scan_envelope_def clean_message_def)

section \<open>Completion sets the file READY\<close>



section \<open>The output of decryption\<close>






section \<open>Redelivery\<close>

text \<open>
  No worker reads the status of the Job row before it works: the first statement of
  \<^verbatim>\<open>process_image_job\<close> and of \<^verbatim>\<open>process_security_job\<close> is
  \<^verbatim>\<open>update_job_status(db, job_id, JobStatus.RUNNING)\<close>, which overwrites it.
\<close>

lemma update_job_status_forgets_status:
  "update_job_status (with_job_status s jid st) jid st2 em None
     = update_job_status (with_job_status s jid st') jid st2 em None"
proof -
  define u :: "Job \<Rightarrow> Job" where
    "u = (\<lambda>j. if Job_id j = jid
              then j\<lparr>Job_status := st2, Job_updated_at := clock s,
                     Job_error_message := (if truthy em then em else Job_error_message j),
                     Job_result_file_id :=
                       (if truthy None then None else Job_result_file_id j)\<rparr>
              else j)"
  have f: "Job_id (if Job_id j = jid then j\<lparr>Job_status := x\<rparr> else j) = Job_id j" for j x
    by simp
  have ids: "map Job_id (jobs (db (with_job_status s jid x))) = map Job_id (jobs (db s))" for x
    by (simp add: with_job_status_def o_def f)
  have c: "clock (with_job_status s jid x) = clock s" for x
    by (simp add: with_job_status_def)
  have e2: "(\<exists>j \<in> set ys. Job_id j = jid) \<longleftrightarrow> jid \<in> set (map Job_id ys)" for ys
    by auto
  have ex: "(\<exists>j \<in> set (jobs (db (with_job_status s jid x))). Job_id j = jid)
              \<longleftrightarrow> (\<exists>j \<in> set (jobs (db s)). Job_id j = jid)" for x
    unfolding e2 ids ..
  have m: "map (\<lambda>j. if Job_id j = jid
              then j\<lparr>Job_status := st2, Job_updated_at := clock s,
                     Job_error_message := (if truthy em then em else Job_error_message j),
                     Job_result_file_id :=
                       (if truthy None then None else Job_result_file_id j)\<rparr>
              else j) (jobs (db (with_job_status s jid x))) = map u (jobs (db s))" for x
    by (simp add: with_job_status_def u_def)
  have "update_job_status (with_job_status s jid x) jid st2 em None =
          (if \<exists>j \<in> set (jobs (db s)). Job_id j = jid
           then Inr (commit ((db s)\<lparr>jobs := map u (jobs (db s))\<rparr>) s)
           else Inr (with_job_status s jid x))" for x
    unfolding update_job_status_def ex c m
    by (simp add: with_job_status_def commit_def)
  moreover have "with_job_status s jid x = s" if "\<not> (\<exists>j \<in> set (jobs (db s)). Job_id j = jid)" for x
  proof -
    from that have "map (\<lambda>j. if Job_id j = jid then j\<lparr>Job_status := x\<rparr> else j) (jobs (db s))
                      = jobs (db s)"
      by (induction "jobs (db s)") (auto simp: map_idI)
    then show ?thesis by (simp add: with_job_status_def)
  qed
  ultimately show ?thesis by (cases "\<exists>j \<in> set (jobs (db s)). Job_id j = jid") simp_all
qed

lemma image_try_forgets_status:
  "image_try w (with_job_status s (env_job_id jd) st) jd
     = image_try w (with_job_status s (env_job_id jd) st') jd"
proof -
  from update_job_status_no_result [of "with_job_status s (env_job_id jd) st" "env_job_id jd" RUNNING None]
  obtain s1 where
    a: "update_job_status (with_job_status s (env_job_id jd) st) (env_job_id jd) RUNNING None None = Inr s1"
    by blast
  with update_job_status_forgets_status [of s "env_job_id jd" st RUNNING None st']
  have b: "update_job_status (with_job_status s (env_job_id jd) st') (env_job_id jd) RUNNING None None = Inr s1"
    by simp
  show ?thesis unfolding image_try_def a b by simp
qed

lemma security_try_forgets_status:
  "security_try w (with_job_status s (env_job_id jd) st) jd
     = security_try w (with_job_status s (env_job_id jd) st') jd"
proof -
  from update_job_status_no_result [of "with_job_status s (env_job_id jd) st" "env_job_id jd" RUNNING None]
  obtain s1 where
    a: "update_job_status (with_job_status s (env_job_id jd) st) (env_job_id jd) RUNNING None None = Inr s1"
    by blast
  with update_job_status_forgets_status [of s "env_job_id jd" st RUNNING None st']
  have b: "update_job_status (with_job_status s (env_job_id jd) st') (env_job_id jd) RUNNING None None = Inr s1"
    by simp
  show ?thesis unfolding security_try_def a b by simp
qed

text \<open>
  Claim C1, amended. The image worker and the security worker process an envelope in the
  same way whatever the status of its Job row: the result and the whole state after
  (Job rows, File rows, object store, commits) are equal for any two statuses before, so
  a redelivered envelope of a COMPLETED or FAILED job is executed again exactly as the
  envelope of a QUEUED job is.
\<close>

theorem redelivery_ignores_job_status:
  "process_image_job w (with_job_status s (env_job_id jd) st) jd
     = process_image_job w (with_job_status s (env_job_id jd) st') jd
   \<and> process_security_job w (with_job_status s (env_job_id jd) st) jd
     = process_security_job w (with_job_status s (env_job_id jd) st') jd"
  unfolding process_image_job_def process_security_job_def
  by (simp only: image_try_forgets_status [of w s jd st st']
        security_try_forgets_status [of w s jd st st'])

text \<open>The definitions to unfold when the image worker runs on an example.\<close>

lemmas image_run_defs = process_image_job_def image_try_def image_handler_def store_output_def
  insert_output_File_def update_job_status_def set_File_READY_def original_name_of_def
  s3_download_file_def s3_upload_file_def commit_def draw_def except_with_rollback_def
  sql_literal_ok_def Let_def params_get_def Path_stem_def Path_suffix_def
  Path_name_def rfind_def example_world_def example_system_def example_File_def
  example_derived_File_def example_Job_def example_envelope_def

theorem redelivery_ignores_job_status_witness:
  "map Job_status (jobs (db (with_job_status thumbnail_done_system ''j1'' QUEUED))) = [QUEUED]
   \<and> process_image_job example_world thumbnail_done_system thumbnail_envelope
     = process_image_job example_world (with_job_status thumbnail_done_system ''j1'' QUEUED)
         thumbnail_envelope
   \<and> process_security_job example_world thumbnail_done_system thumbnail_envelope
     = process_security_job example_world (with_job_status thumbnail_done_system ''j1'' QUEUED)
         thumbnail_envelope"
proof -
  have i: "env_job_id thumbnail_envelope = ''j1''"
    by (simp add: thumbnail_envelope_def example_envelope_def)
  have c: "with_job_status thumbnail_done_system ''j1'' COMPLETED = thumbnail_done_system"
    by (simp add: with_job_status_def thumbnail_done_system_def example_system_def example_Job_def)
  have q: "map Job_status (jobs (db (with_job_status thumbnail_done_system ''j1'' QUEUED))) = [QUEUED]"
    by (simp add: with_job_status_def thumbnail_done_system_def example_system_def example_Job_def)
  from redelivery_ignores_job_status [where w = example_world and s = thumbnail_done_system
      and jd = thumbnail_envelope and st = COMPLETED and st' = QUEUED] q
  show ?thesis unfolding i c by simp
qed

text \<open>
  Claim C1, as stated, fails: the thumbnail job \<^verbatim>\<open>j1\<close> is COMPLETED with result
  \<^verbatim>\<open>d1\<close>; when its envelope is delivered again the image worker returns normally,
  and afterwards there is a third File row and the Job row names it as its result.
\<close>

theorem redelivered_completed_job_is_processed:
  "map Job_status (jobs (db thumbnail_done_system)) = [COMPLETED]
   \<and> map Job_id (jobs (db thumbnail_done_system)) = [env_job_id thumbnail_envelope]
   \<and> map Job_result_file_id (jobs (db thumbnail_done_system)) = [Some ''d1'']
   \<and> map File_id (files (db thumbnail_done_system)) = [''f1'', ''d1'']
   \<and> fst (process_image_job example_world thumbnail_done_system thumbnail_envelope) = Inr ()
   \<and> map Job_result_file_id
        (jobs (db (snd (process_image_job example_world thumbnail_done_system thumbnail_envelope))))
       = [Some ''uuid-'']
   \<and> map File_id
        (files (db (snd (process_image_job example_world thumbnail_done_system thumbnail_envelope))))
       = [''f1'', ''d1'', ''uuid-'']"
  by (simp add: image_run_defs thumbnail_done_system_def thumbnail_envelope_def)

section \<open>Deleting a file\<close>















end
